theory Spec2Isabelle
  imports Main "HOL-Library.Word"
begin

unbundle bit_operations_syntax

section \<open>Data model of the decoder harness (fuzzer/avc\_dec\_fuzzer.cpp)\<close>

text \<open>
  The harness drives the H.264 decoder library through one entry point,
  \<^verbatim>\<open>ivd_api_function(handle, ip, op)\<close>. The library, the C allocator and the
  headers \<^verbatim>\<open>iv.h\<close>, \<^verbatim>\<open>ivd.h\<close>, \<^verbatim>\<open>ih264d.h\<close> are not part of the
  sources, so the library and the allocator are parameters of the model (an
  environment of total functions over an abstract world state \<open>'w\<close>), and every
  call the harness makes is recorded in a list of events.

  Machine types: \<^verbatim>\<open>uint8_t\<close> is \<open>8 word\<close>, \<^verbatim>\<open>UWORD32\<close>/\<^verbatim>\<open>uint32_t\<close> is
  \<open>32 word\<close> (arithmetic wraps), \<^verbatim>\<open>size_t\<close> values are \<open>nat\<close> (they are
  bounded by the input length or by a 32-bit value, so they never wrap).
  Buffer addresses are \<open>nat\<close> with 0 for the null pointer.
\<close>

type_synonym u8 = "8 word"
type_synonym u32 = "32 word"

text \<open>
  \<^verbatim>\<open>IV_COLOR_FORMAT_T\<close>: the six enumerators the harness names, and
  \<open>IV_COLOR_FORMAT_OTHER\<close> for every other enumerator of the library's type
  (they reach the \<^verbatim>\<open>default\<close> branch of the switch in \<^verbatim>\<open>allocFrame\<close>).
\<close>

datatype IV_COLOR_FORMAT_T =
    IV_YUV_420P
  | IV_YUV_420SP_UV
  | IV_YUV_420SP_VU
  | IV_YUV_422ILE
  | IV_RGB_565
  | IV_RGBA_8888
  | IV_COLOR_FORMAT_OTHER nat

datatype IV_API_CALL_STATUS_T = IV_SUCCESS | IV_FAIL | IV_STATUS_NA

datatype IVD_VIDEO_DECODE_MODE_T = IVD_DECODE_FRAME | IVD_DECODE_HEADER

text \<open>
  Modelled from the spec: the declaration of \<^verbatim>\<open>ivd_out_bufdesc_t\<close> (ivd.h) is
  missing; the spec gives the buffer set at most 4 planes
  (\<open>planeSizes[\<le>4], planeBuffers[\<le>4]\<close>), so the two arrays have 4 entries.
  The harness writes indices 0..2 only.
\<close>

record ivd_out_bufdesc_t =
  u4_num_bufs :: u32
  pu1_bufs :: "nat list"
  u4_min_out_buf_size :: "u32 list"

record ivd_video_decode_ip_t =
  pv_stream_buffer :: "u8 list"
  u4_num_Bytes :: u32
  s_out_buffer :: ivd_out_bufdesc_t

text \<open>
  The input structures, one constructor per command (\<^verbatim>\<open>e_cmd\<close>/\<^verbatim>\<open>e_sub_cmd\<close>),
  carrying the fields that vary. The stream pointer is modelled by the bytes it
  points at: \<^verbatim>\<open>data += k\<close> is \<open>drop k data\<close>.
\<close>

datatype api_ip =
    IVD_CMD_CREATE IV_COLOR_FORMAT_T
  | IVD_CMD_DELETE
  | IVD_CMD_CTL_RESET
  | IH264D_CMD_CTL_SET_NUM_CORES u32
  | IVD_CMD_CTL_SETPARAMS IVD_VIDEO_DECODE_MODE_T
  | IVD_CMD_VIDEO_DECODE ivd_video_decode_ip_t

text \<open>
  The output structure: the fields of the \<^verbatim>\<open>*_op_t\<close> structures that the
  harness reads. The library receives the structure by pointer, so the model
  passes the current contents in and gets the new contents back.
\<close>

record api_op =
  pv_handle :: nat
  u4_error_code :: u32
  u4_num_bytes_consumed :: u32
  u4_pic_wd :: u32
  u4_pic_ht :: u32

record 'w api_result =
  api_ret :: IV_API_CALL_STATUS_T
  api_out :: api_op
  api_world :: 'w

text \<open>
  The environment: the library's entry point, \<^verbatim>\<open>memalign\<close> and \<^verbatim>\<open>free\<close> of
  the C library, and the constant \<^verbatim>\<open>IVD_RES_CHANGED\<close> of ivd.h. A handle is
  \<open>None\<close> for \<^verbatim>\<open>nullptr\<close>; a handle returned with \<^verbatim>\<open>IV_SUCCESS\<close> is taken to
  address a live object (the harness dereferences it without a check).
\<close>

record 'w env =
  ivd_api_function :: "'w \<Rightarrow> nat option \<Rightarrow> api_ip \<Rightarrow> api_op \<Rightarrow> 'w api_result"
  memalign :: "'w \<Rightarrow> nat \<Rightarrow> nat \<Rightarrow> nat \<times> 'w"
  free :: "'w \<Rightarrow> nat \<Rightarrow> 'w"
  IVD_RES_CHANGED :: u32

text \<open>
  What the harness does to the outside, in order: a library call (handle and
  input structure), \<^verbatim>\<open>memalign(alignment, size)\<close> with the pointer it returned,
  \<^verbatim>\<open>free(p)\<close>, and the advance of the input cursor at the end of a loop
  iteration (\<^verbatim>\<open>data += k; size -= k\<close>).
\<close>

datatype event =
    ApiCall "nat option" api_ip
  | Memalign nat nat nat
  | Free nat
  | Advance nat

record Codec =
  mColorFormat :: IV_COLOR_FORMAT_T
  mNumCores :: nat
  mCodec :: "nat option"
  mOutBufHandle :: ivd_out_bufdesc_t
  mWidth :: u32
  mHeight :: u32

text \<open>The result of a method: the object, the world and the events of the call.\<close>

record 'w outcome =
  codec :: Codec
  world :: 'w
  events :: "event list"

text \<open>A loop body also yields the advanced cursor: the data pointer and the size.\<close>

record 'w cursor = "'w outcome" +
  rest :: "u8 list"
  left :: nat

record 'w frame_result = "'w outcome" +
  ret :: IV_API_CALL_STATUS_T
  bytesConsumed :: nat

section \<open>Constants and the colour format table\<close>

definition supportedColorFormats :: "IV_COLOR_FORMAT_T list" where
  "supportedColorFormats =
     [IV_YUV_420P, IV_YUV_420SP_UV, IV_YUV_420SP_VU, IV_YUV_422ILE, IV_RGB_565, IV_RGBA_8888]"

definition OFFSET_COLOR_FORMAT :: nat where
  "OFFSET_COLOR_FORMAT = 6"

definition OFFSET_NUM_CORES :: nat where
  "OFFSET_NUM_CORES = 7"

definition kSupportedColorFormats :: nat where
  "kSupportedColorFormats = length supportedColorFormats"

definition kMaxCores :: nat where
  "kMaxCores = 4"

text \<open>\<^verbatim>\<open>memset(&mOutBufHandle, 0, sizeof(mOutBufHandle))\<close> and a zeroed output structure.\<close>

definition out_buf_zero :: ivd_out_bufdesc_t where
  "out_buf_zero = \<lparr>u4_num_bufs = 0, pu1_bufs = [0, 0, 0, 0], u4_min_out_buf_size = [0, 0, 0, 0]\<rparr>"

definition op_zero :: api_op where
  "op_zero = \<lparr>pv_handle = 0, u4_error_code = 0, u4_num_bytes_consumed = 0,
              u4_pic_wd = 0, u4_pic_ht = 0\<rparr>"

section \<open>The class Codec\<close>

text \<open>\<^verbatim>\<open>Codec::Codec\<close> (lines 129-137).\<close>

definition new_Codec :: "IV_COLOR_FORMAT_T \<Rightarrow> nat \<Rightarrow> Codec" where
  "new_Codec colorFormat numCores =
     \<lparr>mColorFormat = colorFormat, mNumCores = numCores, mCodec = None,
      mOutBufHandle = out_buf_zero, mWidth = 0, mHeight = 0\<rparr>"

text \<open>
  \<^verbatim>\<open>Codec::createCodec\<close> (lines 139-161): on a status other than
  \<^verbatim>\<open>IV_SUCCESS\<close> the method returns and \<open>mCodec\<close> stays null. The method
  returns \<^verbatim>\<open>void\<close>: the caller does not learn the status.
\<close>

definition createCodec :: "'w env \<Rightarrow> Codec \<Rightarrow> 'w \<Rightarrow> 'w outcome" where
  "createCodec env c w =
     (let create_ip = IVD_CMD_CREATE (mColorFormat c);
          r = ivd_api_function env w None create_ip op_zero
      in if api_ret r \<noteq> IV_SUCCESS
         then \<lparr>codec = c, world = api_world r, events = [ApiCall None create_ip]\<rparr>
         else \<lparr>codec = c\<lparr>mCodec := Some (pv_handle (api_out r))\<rparr>,
               world = api_world r, events = [ApiCall None create_ip]\<rparr>)"

text \<open>\<^verbatim>\<open>Codec::deleteCodec\<close> (lines 163-172).\<close>

definition deleteCodec :: "'w env \<Rightarrow> Codec \<Rightarrow> 'w \<Rightarrow> 'w outcome" where
  "deleteCodec env c w =
     (let r = ivd_api_function env w (mCodec c) IVD_CMD_DELETE op_zero
      in \<lparr>codec = c, world = api_world r, events = [ApiCall (mCodec c) IVD_CMD_DELETE]\<rparr>)"

text \<open>\<^verbatim>\<open>Codec::resetCodec\<close> (lines 173-183).\<close>

definition resetCodec :: "'w env \<Rightarrow> Codec \<Rightarrow> 'w \<Rightarrow> 'w outcome" where
  "resetCodec env c w =
     (let r = ivd_api_function env w (mCodec c) IVD_CMD_CTL_RESET op_zero
      in \<lparr>codec = c, world = api_world r, events = [ApiCall (mCodec c) IVD_CMD_CTL_RESET]\<rparr>)"

text \<open>\<^verbatim>\<open>Codec::setCores\<close> (lines 185-197); \<^verbatim>\<open>u4_num_cores = mNumCores\<close> narrows to 32 bits.\<close>

definition setCores :: "'w env \<Rightarrow> Codec \<Rightarrow> 'w \<Rightarrow> 'w outcome" where
  "setCores env c w =
     (let s_ctl_ip = IH264D_CMD_CTL_SET_NUM_CORES (of_nat (mNumCores c));
          r = ivd_api_function env w (mCodec c) s_ctl_ip op_zero
      in \<lparr>codec = c, world = api_world r, events = [ApiCall (mCodec c) s_ctl_ip]\<rparr>)"

text \<open>\<^verbatim>\<open>Codec::setParams\<close> (lines 199-213).\<close>

definition setParams :: "'w env \<Rightarrow> Codec \<Rightarrow> 'w \<Rightarrow> IVD_VIDEO_DECODE_MODE_T \<Rightarrow> 'w outcome" where
  "setParams env c w mode =
     (let s_ctl_ip = IVD_CMD_CTL_SETPARAMS mode;
          r = ivd_api_function env w (mCodec c) s_ctl_ip op_zero
      in \<lparr>codec = c, world = api_world r, events = [ApiCall (mCodec c) s_ctl_ip]\<rparr>)"

text \<open>
  \<^verbatim>\<open>Codec::freeFrame\<close> (lines 215-222). \<open>freeFrame_upto env n\<close> is the state
  after the iterations \<open>i = 0, ..., n - 1\<close> of the loop.
\<close>

primrec freeFrame_upto :: "'w env \<Rightarrow> nat \<Rightarrow> Codec \<Rightarrow> 'w \<Rightarrow> 'w outcome" where
  "freeFrame_upto env 0 c w = \<lparr>codec = c, world = w, events = []\<rparr>"
| "freeFrame_upto env (Suc i) c w =
     (let r = freeFrame_upto env i c w;
          b = mOutBufHandle (codec r);
          p = pu1_bufs b ! i
      in if p \<noteq> 0
         then \<lparr>codec = (codec r)\<lparr>mOutBufHandle := b\<lparr>pu1_bufs := (pu1_bufs b)[i := 0]\<rparr>\<rparr>,
               world = free env (world r) p,
               events = events r @ [Free p]\<rparr>
         else r)"

definition freeFrame :: "'w env \<Rightarrow> Codec \<Rightarrow> 'w \<Rightarrow> 'w outcome" where
  "freeFrame env c w = freeFrame_upto env (unat (u4_num_bufs (mOutBufHandle c))) c w"

text \<open>
  The switch of \<^verbatim>\<open>Codec::allocFrame\<close> (lines 231-259): the array
  \<^verbatim>\<open>sizes[4]\<close> and \<^verbatim>\<open>num_bufs\<close>. The products are formed in 32 bits
  (\<^verbatim>\<open>mWidth * mHeight\<close> on two \<^verbatim>\<open>uint32_t\<close>) and then widened to \<^verbatim>\<open>size_t\<close>;
  \<^verbatim>\<open>*\<close> binds tighter than \<^verbatim>\<open>>>\<close>.
\<close>

fun frame_sizes :: "IV_COLOR_FORMAT_T \<Rightarrow> u32 \<Rightarrow> u32 \<Rightarrow> nat list \<times> nat" where
  "frame_sizes IV_YUV_420SP_UV w h = ([unat (w * h), unat (drop_bit 1 (w * h)), 0, 0], 2)"
| "frame_sizes IV_YUV_420SP_VU w h = ([unat (w * h), unat (drop_bit 1 (w * h)), 0, 0], 2)"
| "frame_sizes IV_YUV_422ILE w h = ([unat (w * h * 2), 0, 0, 0], 1)"
| "frame_sizes IV_RGB_565 w h = ([unat (w * h * 2), 0, 0, 0], 1)"
| "frame_sizes IV_RGBA_8888 w h = ([unat (w * h * 4), 0, 0, 0], 1)"
| "frame_sizes IV_YUV_420P w h =
     ([unat (w * h), unat (drop_bit 2 (w * h)), unat (drop_bit 2 (w * h)), 0], 3)"
| "frame_sizes (IV_COLOR_FORMAT_OTHER k) w h =
     ([unat (w * h), unat (drop_bit 2 (w * h)), unat (drop_bit 2 (w * h)), 0], 3)"

text \<open>
  The allocation loop of \<^verbatim>\<open>allocFrame\<close> (lines 261-264), as the state after
  the iterations \<open>i = 0, ..., n - 1\<close>. \<^verbatim>\<open>u4_min_out_buf_size[i] = sizes[i]\<close>
  narrows to 32 bits.
\<close>

primrec allocFrame_upto :: "'w env \<Rightarrow> nat \<Rightarrow> nat list \<Rightarrow> Codec \<Rightarrow> 'w \<Rightarrow> 'w outcome" where
  "allocFrame_upto env 0 sizes c w = \<lparr>codec = c, world = w, events = []\<rparr>"
| "allocFrame_upto env (Suc i) sizes c w =
     (let r = allocFrame_upto env i sizes c w;
          b = mOutBufHandle (codec r);
          m = memalign env (world r) 16 (sizes ! i)
      in \<lparr>codec = (codec r)\<lparr>mOutBufHandle :=
                b\<lparr>u4_min_out_buf_size := (u4_min_out_buf_size b)[i := of_nat (sizes ! i)],
                  pu1_bufs := (pu1_bufs b)[i := fst m]\<rparr>\<rparr>,
          world = snd m,
          events = events r @ [Memalign 16 (sizes ! i) (fst m)]\<rparr>)"

text \<open>\<^verbatim>\<open>Codec::allocFrame\<close> (lines 223-265).\<close>

definition allocFrame :: "'w env \<Rightarrow> Codec \<Rightarrow> 'w \<Rightarrow> 'w outcome" where
  "allocFrame env c w =
     (let f = freeFrame env c w;
          c1 = (codec f)\<lparr>mOutBufHandle := out_buf_zero\<rparr>;
          sizes = fst (frame_sizes (mColorFormat c1) (mWidth c1) (mHeight c1));
          num_bufs = snd (frame_sizes (mColorFormat c1) (mWidth c1) (mHeight c1));
          c2 = c1\<lparr>mOutBufHandle := (mOutBufHandle c1)\<lparr>u4_num_bufs := of_nat num_bufs\<rparr>\<rparr>;
          a = allocFrame_upto env num_bufs sizes c2 (world f)
      in \<lparr>codec = codec a, world = world a, events = events f @ events a\<rparr>)"

text \<open>
  One iteration of the loop of \<^verbatim>\<open>Codec::decodeHeader\<close> (lines 270-298), up to
  the test for the \<^verbatim>\<open>break\<close>. \<^verbatim>\<open>u4_num_Bytes = size\<close> narrows to 32 bits; the
  output buffer descriptor of the request is zero (\<^verbatim>\<open>memset\<close>).
\<close>

definition decodeHeader_body :: "'w env \<Rightarrow> Codec \<Rightarrow> 'w \<Rightarrow> u8 list \<Rightarrow> nat \<Rightarrow> 'w cursor" where
  "decodeHeader_body env c w data sz =
     (let dec_ip = IVD_CMD_VIDEO_DECODE
            \<lparr>pv_stream_buffer = data, u4_num_Bytes = of_nat sz, s_out_buffer = out_buf_zero\<rparr>;
          r = ivd_api_function env w (mCodec c) dec_ip op_zero;
          dec_op = api_out r;
          bytes_consumed = unat (u4_num_bytes_consumed dec_op);
          bytes_consumed = (if bytes_consumed = 0 then 4 else bytes_consumed);
          bytes_consumed = min sz bytes_consumed
      in \<lparr>codec = c\<lparr>mWidth := min (u4_pic_wd dec_op) 10240,
                    mHeight := min (u4_pic_ht dec_op) 10240\<rparr>,
          world = api_world r,
          events = [ApiCall (mCodec c) dec_ip, Advance bytes_consumed],
          rest = drop bytes_consumed data,
          left = sz - bytes_consumed\<rparr>)"

text \<open>The loop \<^verbatim>\<open>while (size > 0)\<close> of \<^verbatim>\<open>decodeHeader\<close> (lines 269-304) with its \<^verbatim>\<open>break\<close>.\<close>

function decodeHeader_loop :: "'w env \<Rightarrow> Codec \<Rightarrow> 'w \<Rightarrow> u8 list \<Rightarrow> nat \<Rightarrow> 'w outcome" where
  "decodeHeader_loop env c w data sz =
     (if 0 < sz then
        (let s = decodeHeader_body env c w data sz
         in if mWidth (codec s) \<noteq> 0 \<and> mHeight (codec s) \<noteq> 0
            then \<lparr>codec = codec s, world = world s, events = events s\<rparr>
            else (let t = decodeHeader_loop env (codec s) (world s) (rest s) (left s)
                  in \<lparr>codec = codec t, world = world t, events = events s @ events t\<rparr>))
      else \<lparr>codec = c, world = w, events = []\<rparr>)"
  by pat_completeness auto
termination
  by (relation "measure (\<lambda>(env, c, w, data, sz). sz)")
     (auto simp: decodeHeader_body_def Let_def min_def)

text \<open>\<^verbatim>\<open>Codec::decodeHeader\<close> (lines 266-308).\<close>

definition decodeHeader :: "'w env \<Rightarrow> Codec \<Rightarrow> 'w \<Rightarrow> u8 list \<Rightarrow> nat \<Rightarrow> 'w outcome" where
  "decodeHeader env c w data sz =
     (let p = setParams env c w IVD_DECODE_HEADER;
          l = decodeHeader_loop env (codec p) (world p) data sz;
          c1 = codec l;
          c2 = (if mWidth c1 = 0 then c1\<lparr>mWidth := 1920\<rparr> else c1);
          c3 = (if mHeight c2 = 0 then c2\<lparr>mHeight := 1088\<rparr> else c2)
      in \<lparr>codec = c3, world = world l, events = events p @ events l\<rparr>)"

text \<open>
  The submissions of \<^verbatim>\<open>Codec::decodeFrame\<close> (lines 312-335): the request, the
  call, and on \<^verbatim>\<open>IVD_RES_CHANGED\<close> in the low byte of the error code the reset
  and the second call with the same request. The output structure is zeroed
  before the first call only, so the second call starts from what the first left.
\<close>

definition decodeFrame_submit ::
  "'w env \<Rightarrow> Codec \<Rightarrow> 'w \<Rightarrow> u8 list \<Rightarrow> nat \<Rightarrow> 'w api_result \<times> event list" where
  "decodeFrame_submit env c w data sz =
     (let dec_ip = IVD_CMD_VIDEO_DECODE
            \<lparr>pv_stream_buffer = data, u4_num_Bytes = of_nat sz,
             s_out_buffer = mOutBufHandle c\<rparr>;
          r1 = ivd_api_function env w (mCodec c) dec_ip op_zero
      in if IVD_RES_CHANGED env = (u4_error_code (api_out r1) AND 0xFF)
         then (let rs = resetCodec env c (api_world r1);
                   r2 = ivd_api_function env (world rs) (mCodec c) dec_ip (api_out r1)
               in (r2, [ApiCall (mCodec c) dec_ip] @ events rs @ [ApiCall (mCodec c) dec_ip]))
         else (r1, [ApiCall (mCodec c) dec_ip]))"

text \<open>\<^verbatim>\<open>Codec::decodeFrame\<close> (lines 310-349).\<close>

definition decodeFrame :: "'w env \<Rightarrow> Codec \<Rightarrow> 'w \<Rightarrow> u8 list \<Rightarrow> nat \<Rightarrow> 'w frame_result" where
  "decodeFrame env c w data sz =
     (let sub = decodeFrame_submit env c w data sz;
          dec_op = api_out (fst sub);
          n = unat (u4_num_bytes_consumed dec_op);
          n = (if n = 0 then 4 else n)
      in if mWidth c \<noteq> u4_pic_wd dec_op \<or> mHeight c \<noteq> u4_pic_ht dec_op
         then (let a = allocFrame env
                         (c\<lparr>mWidth := min (u4_pic_wd dec_op) 10240,
                            mHeight := min (u4_pic_ht dec_op) 10240\<rparr>)
                         (api_world (fst sub))
               in \<lparr>codec = codec a, world = world a, events = snd sub @ events a,
                   ret = api_ret (fst sub), bytesConsumed = n\<rparr>)
         else \<lparr>codec = c, world = api_world (fst sub), events = snd sub,
               ret = api_ret (fst sub), bytesConsumed = n\<rparr>)"

section \<open>The entry point\<close>

text \<open>One iteration of the loop of \<^verbatim>\<open>LLVMFuzzerTestOneInput\<close> (lines 370-376).\<close>

definition frame_body :: "'w env \<Rightarrow> Codec \<Rightarrow> 'w \<Rightarrow> u8 list \<Rightarrow> nat \<Rightarrow> 'w cursor" where
  "frame_body env c w data sz =
     (let f = decodeFrame env c w data sz;
          n = min sz (bytesConsumed f)
      in \<lparr>codec = codec f, world = world f, events = events f @ [Advance n],
          rest = drop n data, left = sz - n\<rparr>)"

text \<open>The loop \<^verbatim>\<open>while (size > 0)\<close> of \<^verbatim>\<open>LLVMFuzzerTestOneInput\<close> (lines 369-377).\<close>

function frame_loop :: "'w env \<Rightarrow> Codec \<Rightarrow> 'w \<Rightarrow> u8 list \<Rightarrow> nat \<Rightarrow> 'w outcome" where
  "frame_loop env c w data sz =
     (if 0 < sz then
        (let s = frame_body env c w data sz;
             t = frame_loop env (codec s) (world s) (rest s) (left s)
         in \<lparr>codec = codec t, world = world t, events = events s @ events t\<rparr>)
      else \<lparr>codec = c, world = w, events = []\<rparr>)"
  by pat_completeness auto
termination
  by (relation "measure (\<lambda>(env, c, w, data, sz). sz)")
     (auto simp: frame_body_def decodeFrame_def Let_def min_def)

text \<open>
  A read \<^verbatim>\<open>data[i]\<close> of the input: outside the buffer the C program has no
  defined behaviour, which the model reports as \<open>None\<close>.
\<close>

definition byte_at :: "u8 list \<Rightarrow> nat \<Rightarrow> u8 option" where
  "byte_at data i = (if i < length data then Some (data ! i) else None)"

text \<open>
  The choice of colour format and core count (lines 355-360), for
  \<open>size = length data\<close> with \<open>1 \<le> size\<close>. \<^verbatim>\<open>size - 1\<close> does not wrap there.
\<close>

definition colorFormatOfst :: "nat \<Rightarrow> nat" where
  "colorFormatOfst sz = min OFFSET_COLOR_FORMAT (sz - 1)"

definition numCoresOfst :: "nat \<Rightarrow> nat" where
  "numCoresOfst sz = min OFFSET_NUM_CORES (sz - 1)"

definition selectConfig :: "u8 list \<Rightarrow> (IV_COLOR_FORMAT_T \<times> nat) option" where
  "selectConfig data =
     (case byte_at data (colorFormatOfst (length data)) of
        None \<Rightarrow> None
      | Some b1 \<Rightarrow>
          (case byte_at data (numCoresOfst (length data)) of
             None \<Rightarrow> None
           | Some b2 \<Rightarrow>
               (let colorFormatIdx = unat b1 mod kSupportedColorFormats;
                    colorFormat = supportedColorFormats ! colorFormatIdx;
                    numCores = unat b2 mod kMaxCores + 1
                in Some (colorFormat, numCores))))"

text \<open>
  The session (lines 362-381) up to the frame loop, the whole session, and the
  entry point (lines 351-383). The header phase receives \<open>data\<close> and \<open>size\<close>
  by value; the frame loop starts from the same \<open>data\<close> and \<open>size\<close>.
  \<^verbatim>\<open>new\<close> and \<^verbatim>\<open>delete\<close> of the object itself are not events. On an
  empty input the entry point returns before any object exists; the outcome
  then has no events and its object is a placeholder.
\<close>

definition session_setup ::
  "'w env \<Rightarrow> 'w \<Rightarrow> u8 list \<Rightarrow> nat \<Rightarrow> IV_COLOR_FORMAT_T \<Rightarrow> nat \<Rightarrow> 'w outcome" where
  "session_setup env w data sz colorFormat numCores =
     (let k = new_Codec colorFormat numCores;
          r1 = createCodec env k w;
          r2 = setCores env (codec r1) (world r1);
          r3 = decodeHeader env (codec r2) (world r2) data sz;
          r4 = setParams env (codec r3) (world r3) IVD_DECODE_FRAME;
          r5 = allocFrame env (codec r4) (world r4)
      in \<lparr>codec = codec r5, world = world r5,
          events = events r1 @ events r2 @ events r3 @ events r4 @ events r5\<rparr>)"

definition session ::
  "'w env \<Rightarrow> 'w \<Rightarrow> u8 list \<Rightarrow> nat \<Rightarrow> IV_COLOR_FORMAT_T \<Rightarrow> nat \<Rightarrow> 'w outcome" where
  "session env w data sz colorFormat numCores =
     (let r5 = session_setup env w data sz colorFormat numCores;
          r6 = frame_loop env (codec r5) (world r5) data sz;
          r7 = freeFrame env (codec r6) (world r6);
          r8 = deleteCodec env (codec r7) (world r7)
      in \<lparr>codec = codec r8, world = world r8,
          events = events r5 @ events r6 @ events r7 @ events r8\<rparr>)"

definition LLVMFuzzerTestOneInput :: "'w env \<Rightarrow> 'w \<Rightarrow> u8 list \<Rightarrow> 'w outcome option" where
  "LLVMFuzzerTestOneInput env w data =
     (let sz = length data
      in if sz < 1 then Some \<lparr>codec = new_Codec IV_YUV_420P 0, world = w, events = []\<rparr>
         else (case selectConfig data of
                 None \<Rightarrow> None
               | Some (colorFormat, numCores) \<Rightarrow>
                   Some (session env w data sz colorFormat numCores)))"

section \<open>Reading the events\<close>

text \<open>The cursor advances, the library calls, the allocations and the releases of a run.\<close>

primrec advances :: "event list \<Rightarrow> nat list" where
  "advances [] = []"
| "advances (e # es) = (case e of Advance k \<Rightarrow> k # advances es | _ \<Rightarrow> advances es)"

primrec api_calls :: "event list \<Rightarrow> (nat option \<times> api_ip) list" where
  "api_calls [] = []"
| "api_calls (e # es) = (case e of ApiCall h ip \<Rightarrow> (h, ip) # api_calls es | _ \<Rightarrow> api_calls es)"

primrec allocs :: "event list \<Rightarrow> (nat \<times> nat) list" where
  "allocs [] = []"
| "allocs (e # es) = (case e of Memalign a s p \<Rightarrow> (a, s) # allocs es | _ \<Rightarrow> allocs es)"

primrec alloc_ptrs :: "event list \<Rightarrow> nat list" where
  "alloc_ptrs [] = []"
| "alloc_ptrs (e # es) = (case e of Memalign a s p \<Rightarrow> p # alloc_ptrs es | _ \<Rightarrow> alloc_ptrs es)"

primrec frees :: "event list \<Rightarrow> nat list" where
  "frees [] = []"
| "frees (e # es) = (case e of Free p \<Rightarrow> p # frees es | _ \<Rightarrow> frees es)"

text \<open>The decode requests among the library calls.\<close>

primrec decodes :: "event list \<Rightarrow> ivd_video_decode_ip_t list" where
  "decodes [] = []"
| "decodes (e # es) =
     (case e of ApiCall h (IVD_CMD_VIDEO_DECODE d) \<Rightarrow> d # decodes es | _ \<Rightarrow> decodes es)"

text \<open>The non-null buffers a descriptor holds in its first \<open>u4_num_bufs\<close> entries.\<close>

definition live_bufs :: "ivd_out_bufdesc_t \<Rightarrow> nat list" where
  "live_bufs b = filter (\<lambda>p. p \<noteq> 0) (map (\<lambda>i. pu1_bufs b ! i) [0..<unat (u4_num_bufs b)])"

section \<open>The plane sizes in the words of the specification\<close>

text \<open>
  Section 4.1 of the specification: plane count and plane sizes per layout, a
  layout that is not recognised taking the planar 4:2:0 formula. These two
  functions follow the specification, not the code; the code's computation is
  \<open>frame_sizes\<close>. The specification does not fix the integer type of the
  sizes, so \<open>planeSizes\<close> is stated once for every type with multiplication
  and division: it is read over \<open>nat\<close> (unbounded) and over \<open>32 word\<close>
  (the type of the code's width and height).
\<close>

fun planeCount :: "IV_COLOR_FORMAT_T \<Rightarrow> nat" where
  "planeCount IV_YUV_420P = 3"
| "planeCount IV_YUV_420SP_UV = 2"
| "planeCount IV_YUV_420SP_VU = 2"
| "planeCount IV_YUV_422ILE = 1"
| "planeCount IV_RGB_565 = 1"
| "planeCount IV_RGBA_8888 = 1"
| "planeCount (IV_COLOR_FORMAT_OTHER k) = 3"

fun planeSizes :: "IV_COLOR_FORMAT_T \<Rightarrow> 'a::{times,divide,numeral} \<Rightarrow> 'a \<Rightarrow> 'a list" where
  "planeSizes IV_YUV_420P w h = [w * h, w * h div 4, w * h div 4]"
| "planeSizes IV_YUV_420SP_UV w h = [w * h, w * h div 2]"
| "planeSizes IV_YUV_420SP_VU w h = [w * h, w * h div 2]"
| "planeSizes IV_YUV_422ILE w h = [w * h * 2]"
| "planeSizes IV_RGB_565 w h = [w * h * 2]"
| "planeSizes IV_RGBA_8888 w h = [w * h * 4]"
| "planeSizes (IV_COLOR_FORMAT_OTHER k) w h = [w * h, w * h div 4, w * h div 4]"

section \<open>Example environments\<close>

text \<open>
  A library that answers creation with the given status (and handle 1) and
  every decode request with \<open>reply\<close> applied to the output structure it
  received; the allocator numbers its blocks 1, 2, 3, ... and the world is the
  number of blocks handed out.
\<close>

definition demo_env :: "IV_API_CALL_STATUS_T \<Rightarrow> (api_op \<Rightarrow> api_op) \<Rightarrow> nat env" where
  "demo_env create_status reply =
     \<lparr>ivd_api_function = (\<lambda>w h ip op.
         case ip of
           IVD_CMD_CREATE f \<Rightarrow>
             \<lparr>api_ret = create_status, api_out = op\<lparr>pv_handle := 1\<rparr>, api_world = w\<rparr>
         | IVD_CMD_VIDEO_DECODE d \<Rightarrow>
             \<lparr>api_ret = (if h = None then IV_FAIL else IV_SUCCESS), api_out = reply op,
              api_world = w\<rparr>
         | _ \<Rightarrow>
             \<lparr>api_ret = (if h = None then IV_FAIL else IV_SUCCESS), api_out = op,
              api_world = w\<rparr>),
      memalign = (\<lambda>w a s. (Suc w, Suc w)),
      free = (\<lambda>w p. w),
      IVD_RES_CHANGED = 0x2B\<rparr>"

text \<open>A decoder that consumes nothing and reports no picture size.\<close>

definition reply_nothing :: "api_op \<Rightarrow> api_op" where
  "reply_nothing op = op_zero"

text \<open>A decoder that consumes one byte per call and reports no picture size.\<close>

definition reply_one_byte :: "api_op \<Rightarrow> api_op" where
  "reply_one_byte op = op_zero\<lparr>u4_num_bytes_consumed := 1\<rparr>"



section \<open>Arithmetic of the plane sizes and of the selector offsets\<close>

lemma clamped_unat:
  fixes w :: u32
  assumes "w \<le> 10240"
  shows "unat w \<le> 10240"
  using assms by (simp add: word_le_nat_alt)

lemma clamped_product:
  fixes w h :: u32
  assumes "w \<le> 10240" and "h \<le> 10240"
  shows "unat w * unat h \<le> 104857600"
proof -
  have "unat w * unat h \<le> 10240 * 10240"
    using assms by (intro mult_le_mono clamped_unat)
  then show ?thesis by simp
qed

lemma unat_mult_small:
  fixes x y :: u32
  assumes "unat x * unat y < 4294967296"
  shows "unat (x * y) = unat x * unat y"
proof -
  have "unat x * unat y < 2 ^ LENGTH(32)"
    using assms by simp
  then show ?thesis
    by (simp only: unat_mult_lem)
qed

lemma clamped_area:
  fixes w h :: u32
  assumes "w \<le> 10240" and "h \<le> 10240"
  shows "unat (w * h) = unat w * unat h"
    and "unat (w * h * 2) = unat w * unat h * 2"
    and "unat (w * h * 4) = unat w * unat h * 4"
proof -
  have b: "unat w * unat h \<le> 104857600"
    using assms by (rule clamped_product)
  show a: "unat (w * h) = unat w * unat h"
  proof (rule unat_mult_small)
    show "unat w * unat h < 4294967296" using b by linarith
  qed
  have two: "unat (2 :: u32) = 2" and four: "unat (4 :: u32) = 4"
    by simp_all
  have "unat (w * h * 2) = unat (w * h) * unat (2 :: u32)"
  proof (rule unat_mult_small)
    show "unat (w * h) * unat (2 :: u32) < 4294967296"
      unfolding a two using b by linarith
  qed
  then show "unat (w * h * 2) = unat w * unat h * 2"
    by (simp only: a two)
  have "unat (w * h * 4) = unat (w * h) * unat (4 :: u32)"
  proof (rule unat_mult_small)
    show "unat (w * h) * unat (4 :: u32) < 4294967296"
      unfolding a four using b by linarith
  qed
  then show "unat (w * h * 4) = unat w * unat h * 4"
    by (simp only: a four)
qed


lemma frame_sizes_clamped:
  fixes w h :: u32
  assumes "w \<le> 10240" and "h \<le> 10240"
  shows "take (planeCount fmt) (fst (frame_sizes fmt w h)) = planeSizes fmt (unat w) (unat h)"
    and "snd (frame_sizes fmt w h) = planeCount fmt"
    and "length (fst (frame_sizes fmt w h)) = 4"
proof -
  note area = clamped_area [OF assms]
  have half: "unat (drop_bit 1 (w * h)) = unat w * unat h div 2"
    unfolding unat_drop_bit_eq area(1) by (simp add: drop_bit_eq_div)
  have half': "unat (drop_bit (Suc 0) (w * h)) = unat w * unat h div 2"
    using half by simp
  have quarter: "unat (drop_bit 2 (w * h)) = unat w * unat h div 4"
    unfolding unat_drop_bit_eq area(1) by (simp add: drop_bit_eq_div)
  show "take (planeCount fmt) (fst (frame_sizes fmt w h)) = planeSizes fmt (unat w) (unat h)"
    by (cases fmt) (simp_all add: area half' quarter)
  show "snd (frame_sizes fmt w h) = planeCount fmt"
    by (cases fmt) simp_all
  show "length (fst (frame_sizes fmt w h)) = 4"
    by (cases fmt) simp_all
qed

lemma length_supportedColorFormats: "length supportedColorFormats = 6"
  by (simp add: supportedColorFormats_def)

lemma offsets_in_bounds:
  assumes "1 \<le> n"
  shows "colorFormatOfst n < n" and "numCoresOfst n < n"
  using assms by (simp_all add: colorFormatOfst_def numCoresOfst_def)

lemma selectConfig_value:
  assumes "1 \<le> length data"
  shows "selectConfig data =
            Some (supportedColorFormats ! (unat (data ! colorFormatOfst (length data)) mod 6),
                  unat (data ! numCoresOfst (length data)) mod 4 + 1)"
  using offsets_in_bounds [OF assms]
  by (simp add: selectConfig_def byte_at_def kSupportedColorFormats_def kMaxCores_def
      length_supportedColorFormats)

section \<open>Events of the methods\<close>

declare decodeHeader_loop.simps [simp del]
declare frame_loop.simps [simp del]

lemma advances_append [simp]: "advances (xs @ ys) = advances xs @ advances ys"
  by (induction xs) (simp_all split: event.splits)

lemma api_calls_append [simp]: "api_calls (xs @ ys) = api_calls xs @ api_calls ys"
  by (induction xs) (simp_all split: event.splits)

lemma allocs_append [simp]: "allocs (xs @ ys) = allocs xs @ allocs ys"
  by (induction xs) (simp_all split: event.splits)

lemma alloc_ptrs_append [simp]: "alloc_ptrs (xs @ ys) = alloc_ptrs xs @ alloc_ptrs ys"
  by (induction xs) (simp_all split: event.splits)

lemma frees_append [simp]: "frees (xs @ ys) = frees xs @ frees ys"
  by (induction xs) (simp_all split: event.splits)

lemma decodes_append [simp]: "decodes (xs @ ys) = decodes xs @ decodes ys"
  by (induction xs) (simp_all split: event.splits api_ip.splits)

lemma decodes_api_calls:
  "decodes evs = concat (map (\<lambda>(h, ip). case ip of IVD_CMD_VIDEO_DECODE d \<Rightarrow> [d] | _ \<Rightarrow> []) (api_calls evs))"
  by (induction evs) (simp_all split: event.splits api_ip.splits)

lemma projections_map_Free [simp]:
  "advances (map Free ps) = []" "api_calls (map Free ps) = []" "allocs (map Free ps) = []"
  "alloc_ptrs (map Free ps) = []" "frees (map Free ps) = ps" "decodes (map Free ps) = []"
  by (induction ps) simp_all

subsection \<open>The methods that make one library call\<close>

lemma createCodec_events [simp]:
  "events (createCodec env c w) = [ApiCall None (IVD_CMD_CREATE (mColorFormat c))]"
  by (simp add: createCodec_def Let_def)

lemma createCodec_codec:
  "codec (createCodec env c w) =
     (if api_ret (ivd_api_function env w None (IVD_CMD_CREATE (mColorFormat c)) op_zero) \<noteq> IV_SUCCESS
      then c
      else c\<lparr>mCodec := Some (pv_handle (api_out
             (ivd_api_function env w None (IVD_CMD_CREATE (mColorFormat c)) op_zero)))\<rparr>)"
  by (simp add: createCodec_def Let_def)

lemma deleteCodec_events [simp]:
  "events (deleteCodec env c w) = [ApiCall (mCodec c) IVD_CMD_DELETE]"
  by (simp add: deleteCodec_def Let_def)

lemma deleteCodec_codec [simp]: "codec (deleteCodec env c w) = c"
  by (simp add: deleteCodec_def Let_def)

lemma resetCodec_events [simp]:
  "events (resetCodec env c w) = [ApiCall (mCodec c) IVD_CMD_CTL_RESET]"
  by (simp add: resetCodec_def Let_def)

lemma resetCodec_codec [simp]: "codec (resetCodec env c w) = c"
  by (simp add: resetCodec_def Let_def)

lemma setCores_events [simp]:
  "events (setCores env c w) =
     [ApiCall (mCodec c) (IH264D_CMD_CTL_SET_NUM_CORES (of_nat (mNumCores c)))]"
  by (simp add: setCores_def Let_def)

lemma setCores_codec [simp]: "codec (setCores env c w) = c"
  by (simp add: setCores_def Let_def)

lemma setParams_events [simp]:
  "events (setParams env c w mode) = [ApiCall (mCodec c) (IVD_CMD_CTL_SETPARAMS mode)]"
  by (simp add: setParams_def Let_def)

lemma setParams_codec [simp]: "codec (setParams env c w mode) = c"
  by (simp add: setParams_def Let_def)

subsection \<open>Releasing and allocating the planes\<close>

lemma freeFrame_upto_kept [simp]:
  "mColorFormat (codec (freeFrame_upto env n c w)) = mColorFormat c"
  "mNumCores (codec (freeFrame_upto env n c w)) = mNumCores c"
  "mCodec (codec (freeFrame_upto env n c w)) = mCodec c"
  "mWidth (codec (freeFrame_upto env n c w)) = mWidth c"
  "mHeight (codec (freeFrame_upto env n c w)) = mHeight c"
  "u4_num_bufs (mOutBufHandle (codec (freeFrame_upto env n c w))) = u4_num_bufs (mOutBufHandle c)"
  by (induction n) (simp_all add: Let_def)

lemma freeFrame_upto_above:
  "n \<le> j \<Longrightarrow>
   pu1_bufs (mOutBufHandle (codec (freeFrame_upto env n c w))) ! j = pu1_bufs (mOutBufHandle c) ! j"
  by (induction n) (simp_all add: Let_def)

lemma freeFrame_upto_events:
  "events (freeFrame_upto env n c w) =
     map Free (filter (\<lambda>p. p \<noteq> 0) (map (\<lambda>i. pu1_bufs (mOutBufHandle c) ! i) [0..<n]))"
  by (induction n) (simp_all add: Let_def freeFrame_upto_above)

lemma freeFrame_events: "events (freeFrame env c w) = map Free (live_bufs (mOutBufHandle c))"
  by (simp add: freeFrame_def live_bufs_def freeFrame_upto_events)

lemma freeFrame_kept [simp]:
  "mColorFormat (codec (freeFrame env c w)) = mColorFormat c"
  "mNumCores (codec (freeFrame env c w)) = mNumCores c"
  "mCodec (codec (freeFrame env c w)) = mCodec c"
  "mWidth (codec (freeFrame env c w)) = mWidth c"
  "mHeight (codec (freeFrame env c w)) = mHeight c"
  by (simp_all add: freeFrame_def)

lemma allocFrame_upto_kept [simp]:
  "mColorFormat (codec (allocFrame_upto env n sizes c w)) = mColorFormat c"
  "mNumCores (codec (allocFrame_upto env n sizes c w)) = mNumCores c"
  "mCodec (codec (allocFrame_upto env n sizes c w)) = mCodec c"
  "mWidth (codec (allocFrame_upto env n sizes c w)) = mWidth c"
  "mHeight (codec (allocFrame_upto env n sizes c w)) = mHeight c"
  "u4_num_bufs (mOutBufHandle (codec (allocFrame_upto env n sizes c w))) = u4_num_bufs (mOutBufHandle c)"
  "length (pu1_bufs (mOutBufHandle (codec (allocFrame_upto env n sizes c w))))
     = length (pu1_bufs (mOutBufHandle c))"
  "length (u4_min_out_buf_size (mOutBufHandle (codec (allocFrame_upto env n sizes c w))))
     = length (u4_min_out_buf_size (mOutBufHandle c))"
  by (induction n) (simp_all add: Let_def)

lemma allocFrame_upto_projections [simp]:
  "advances (events (allocFrame_upto env n sizes c w)) = []"
  "api_calls (events (allocFrame_upto env n sizes c w)) = []"
  "frees (events (allocFrame_upto env n sizes c w)) = []"
  "decodes (events (allocFrame_upto env n sizes c w)) = []"
  by (induction n) (simp_all add: Let_def)

lemma allocFrame_upto_allocs:
  "allocs (events (allocFrame_upto env n sizes c w)) = map (\<lambda>i. (16, sizes ! i)) [0..<n]"
  by (induction n) (simp_all add: Let_def)


lemma allocFrame_upto_ptrs:
  "n \<le> length (pu1_bufs (mOutBufHandle c)) \<Longrightarrow>
   take n (pu1_bufs (mOutBufHandle (codec (allocFrame_upto env n sizes c w))))
     = alloc_ptrs (events (allocFrame_upto env n sizes c w))"
proof (induction n)
  case 0
  show ?case by simp
next
  case (Suc n)
  then show ?case
    by (simp add: Let_def take_Suc_conv_app_nth)
qed

lemma allocFrame_upto_min_sizes:
  "n \<le> length (u4_min_out_buf_size (mOutBufHandle c)) \<Longrightarrow>
   take n (u4_min_out_buf_size (mOutBufHandle (codec (allocFrame_upto env n sizes c w))))
     = map (\<lambda>i. of_nat (sizes ! i)) [0..<n]"
proof (induction n)
  case 0
  show ?case by simp
next
  case (Suc n)
  then show ?case
    by (simp add: Let_def take_Suc_conv_app_nth)
qed

lemma frame_sizes_shape:
  "snd (frame_sizes fmt w h) \<le> 3" "length (fst (frame_sizes fmt w h)) = 4"
  by (cases fmt; simp)+

lemma map_nth_upt_take:
  "n \<le> length xs \<Longrightarrow> map (\<lambda>i. xs ! i) [0..<n] = take n xs"
  by (simp add: list_eq_iff_nth_eq)

lemma out_buf_zero_fields [simp]:
  "u4_num_bufs out_buf_zero = 0" "length (pu1_bufs out_buf_zero) = 4"
  "length (u4_min_out_buf_size out_buf_zero) = 4"
  by (simp_all add: out_buf_zero_def)

lemma allocFrame_kept [simp]:
  "mColorFormat (codec (allocFrame env c w)) = mColorFormat c"
  "mNumCores (codec (allocFrame env c w)) = mNumCores c"
  "mCodec (codec (allocFrame env c w)) = mCodec c"
  "mWidth (codec (allocFrame env c w)) = mWidth c"
  "mHeight (codec (allocFrame env c w)) = mHeight c"
  by (simp_all add: allocFrame_def Let_def)

lemma allocFrame_projections [simp]:
  "advances (events (allocFrame env c w)) = []"
  "api_calls (events (allocFrame env c w)) = []"
  "decodes (events (allocFrame env c w)) = []"
  "frees (events (allocFrame env c w)) = live_bufs (mOutBufHandle c)"
  by (simp_all add: allocFrame_def Let_def freeFrame_events)

lemma allocFrame_allocs:
  "allocs (events (allocFrame env c w)) =
     map (\<lambda>s. (16, s))
       (take (snd (frame_sizes (mColorFormat c) (mWidth c) (mHeight c)))
             (fst (frame_sizes (mColorFormat c) (mWidth c) (mHeight c))))"
proof -
  have "map (\<lambda>i. (16 :: nat, fst (frame_sizes (mColorFormat c) (mWidth c) (mHeight c)) ! i))
          [0..<snd (frame_sizes (mColorFormat c) (mWidth c) (mHeight c))]
        = map (\<lambda>s. (16, s)) (map (\<lambda>i. fst (frame_sizes (mColorFormat c) (mWidth c) (mHeight c)) ! i)
          [0..<snd (frame_sizes (mColorFormat c) (mWidth c) (mHeight c))])"
    by simp
  also have "\<dots> = map (\<lambda>s. (16, s))
       (take (snd (frame_sizes (mColorFormat c) (mWidth c) (mHeight c)))
             (fst (frame_sizes (mColorFormat c) (mWidth c) (mHeight c))))"
    using frame_sizes_shape [of "mColorFormat c" "mWidth c" "mHeight c"]
    by (subst map_nth_upt_take) simp_all
  finally show ?thesis
    by (simp add: allocFrame_def Let_def freeFrame_events allocFrame_upto_allocs)
qed


lemma allocFrame_descriptor:
  "u4_num_bufs (mOutBufHandle (codec (allocFrame env c w)))
     = of_nat (snd (frame_sizes (mColorFormat c) (mWidth c) (mHeight c)))"
  "take (snd (frame_sizes (mColorFormat c) (mWidth c) (mHeight c)))
        (pu1_bufs (mOutBufHandle (codec (allocFrame env c w))))
     = alloc_ptrs (events (allocFrame env c w))"
  "take (snd (frame_sizes (mColorFormat c) (mWidth c) (mHeight c)))
        (u4_min_out_buf_size (mOutBufHandle (codec (allocFrame env c w))))
     = map of_nat (take (snd (frame_sizes (mColorFormat c) (mWidth c) (mHeight c)))
                        (fst (frame_sizes (mColorFormat c) (mWidth c) (mHeight c))))"
proof -
  let ?sizes = "fst (frame_sizes (mColorFormat c) (mWidth c) (mHeight c))"
  let ?n = "snd (frame_sizes (mColorFormat c) (mWidth c) (mHeight c))"
  have n: "?n \<le> 4" and len: "length ?sizes = 4"
    using frame_sizes_shape [of "mColorFormat c" "mWidth c" "mHeight c"] by simp_all
  have tk: "map (\<lambda>i. ?sizes ! i) [0..<?n] = take ?n ?sizes"
    using n len by (subst map_nth_upt_take) simp_all
  show "u4_num_bufs (mOutBufHandle (codec (allocFrame env c w))) = of_nat ?n"
    by (simp add: allocFrame_def Let_def)
  show "take ?n (pu1_bufs (mOutBufHandle (codec (allocFrame env c w))))
          = alloc_ptrs (events (allocFrame env c w))"
    using n by (simp add: allocFrame_def Let_def freeFrame_events allocFrame_upto_ptrs)
  have "take ?n (u4_min_out_buf_size (mOutBufHandle (codec (allocFrame env c w))))
          = map (\<lambda>i. of_nat (?sizes ! i)) [0..<?n]"
    using n by (simp add: allocFrame_def Let_def allocFrame_upto_min_sizes)
  also have "\<dots> = map of_nat (map (\<lambda>i. ?sizes ! i) [0..<?n])"
    by simp
  finally show "take ?n (u4_min_out_buf_size (mOutBufHandle (codec (allocFrame env c w))))
          = map of_nat (take ?n ?sizes)"
    by (simp only: tk)
qed

subsection \<open>The header loop\<close>

lemma decodeHeader_loop_0:
  "decodeHeader_loop env c w data 0 = \<lparr>codec = c, world = w, events = []\<rparr>"
  by (subst decodeHeader_loop.simps) simp

lemma decodeHeader_loop_pos:
  "0 < sz \<Longrightarrow>
   decodeHeader_loop env c w data sz =
     (let s = decodeHeader_body env c w data sz
      in if mWidth (codec s) \<noteq> 0 \<and> mHeight (codec s) \<noteq> 0
         then \<lparr>codec = codec s, world = world s, events = events s\<rparr>
         else (let t = decodeHeader_loop env (codec s) (world s) (rest s) (left s)
               in \<lparr>codec = codec t, world = world t, events = events s @ events t\<rparr>))"
  by (subst decodeHeader_loop.simps) simp

text \<open>The number of bytes an iteration advances by, from the count the library reported.\<close>

lemma decodeHeader_body_events:
  "events (decodeHeader_body env c w data sz) =
     [ApiCall (mCodec c) (IVD_CMD_VIDEO_DECODE
        \<lparr>pv_stream_buffer = data, u4_num_Bytes = of_nat sz, s_out_buffer = out_buf_zero\<rparr>),
      Advance (sz - left (decodeHeader_body env c w data sz))]"
  by (simp add: decodeHeader_body_def Let_def)

lemma decodeHeader_body_left:
  "0 < sz \<Longrightarrow> left (decodeHeader_body env c w data sz) < sz"
  "left (decodeHeader_body env c w data sz) \<le> sz"
  by (auto simp add: decodeHeader_body_def Let_def min_def)


lemma decodeHeader_body_kept [simp]:
  "mColorFormat (codec (decodeHeader_body env c w data sz)) = mColorFormat c"
  "mNumCores (codec (decodeHeader_body env c w data sz)) = mNumCores c"
  "mCodec (codec (decodeHeader_body env c w data sz)) = mCodec c"
  "mOutBufHandle (codec (decodeHeader_body env c w data sz)) = mOutBufHandle c"
  by (simp_all add: decodeHeader_body_def Let_def)


lemma decodeHeader_loop_kept [simp]:
  "mColorFormat (codec (decodeHeader_loop env c w data sz)) = mColorFormat c"
  "mNumCores (codec (decodeHeader_loop env c w data sz)) = mNumCores c"
  "mCodec (codec (decodeHeader_loop env c w data sz)) = mCodec c"
  "mOutBufHandle (codec (decodeHeader_loop env c w data sz)) = mOutBufHandle c"
proof (induction env c w data sz rule: decodeHeader_loop.induct)
  case (1 env c w data sz)
  {
    case 1
    show ?case
    proof (cases "0 < sz")
      case True
      with "1.IH"(1) show ?thesis
        by (simp add: decodeHeader_loop_pos Let_def)
    next
      case False
      then show ?thesis by (simp add: decodeHeader_loop_0)
    qed
  next
    case 2
    show ?case
    proof (cases "0 < sz")
      case True
      with "1.IH"(2) show ?thesis
        by (simp add: decodeHeader_loop_pos Let_def)
    next
      case False
      then show ?thesis by (simp add: decodeHeader_loop_0)
    qed
  next
    case 3
    show ?case
    proof (cases "0 < sz")
      case True
      with "1.IH"(3) show ?thesis
        by (simp add: decodeHeader_loop_pos Let_def)
    next
      case False
      then show ?thesis by (simp add: decodeHeader_loop_0)
    qed
  next
    case 4
    show ?case
    proof (cases "0 < sz")
      case True
      with "1.IH"(4) show ?thesis
        by (simp add: decodeHeader_loop_pos Let_def)
    next
      case False
      then show ?thesis by (simp add: decodeHeader_loop_0)
    qed
  }
qed

lemma decodeHeader_body_projections [simp]:
  "advances (events (decodeHeader_body env c w data sz))
     = [sz - left (decodeHeader_body env c w data sz)]"
  "api_calls (events (decodeHeader_body env c w data sz))
     = [(mCodec c, IVD_CMD_VIDEO_DECODE
          \<lparr>pv_stream_buffer = data, u4_num_Bytes = of_nat sz, s_out_buffer = out_buf_zero\<rparr>)]"
  "allocs (events (decodeHeader_body env c w data sz)) = []"
  "frees (events (decodeHeader_body env c w data sz)) = []"
  by (simp_all add: decodeHeader_body_events)


lemma decodeHeader_loop_handles:
  "\<forall>x \<in> set (api_calls (events (decodeHeader_loop env c w data sz))). fst x = mCodec c"
proof (induction env c w data sz rule: decodeHeader_loop.induct)
  case (1 env c w data sz)
  show ?case
  proof (cases "0 < sz")
    case True
    with 1 show ?thesis
      by (auto simp add: decodeHeader_loop_pos Let_def)
  next
    case False
    then show ?thesis by (simp add: decodeHeader_loop_0)
  qed
qed

lemma decodeHeader_loop_calls_decode:
  "\<forall>x \<in> set (api_calls (events (decodeHeader_loop env c w data sz))).
     \<exists>d. snd x = IVD_CMD_VIDEO_DECODE d \<and> s_out_buffer d = out_buf_zero"
proof (induction env c w data sz rule: decodeHeader_loop.induct)
  case (1 env c w data sz)
  show ?case
  proof (cases "0 < sz")
    case True
    with 1 show ?thesis
      by (auto simp add: decodeHeader_loop_pos Let_def)
  next
    case False
    then show ?thesis by (simp add: decodeHeader_loop_0)
  qed
qed

lemma decodeHeader_loop_no_heap [simp]:
  "allocs (events (decodeHeader_loop env c w data sz)) = []"
  "frees (events (decodeHeader_loop env c w data sz)) = []"
proof (induction env c w data sz rule: decodeHeader_loop.induct)
  case (1 env c w data sz)
  {
    case 1
    show ?case
    proof (cases "0 < sz")
      case True
      with "1.IH"(1) show ?thesis
        by (simp add: decodeHeader_loop_pos Let_def)
    next
      case False
      then show ?thesis by (simp add: decodeHeader_loop_0)
    qed
  next
    case 2
    show ?case
    proof (cases "0 < sz")
      case True
      with "1.IH"(2) show ?thesis
        by (simp add: decodeHeader_loop_pos Let_def)
    next
      case False
      then show ?thesis by (simp add: decodeHeader_loop_0)
    qed
  }
qed


lemma decodeHeader_loop_first_call:
  assumes "0 < sz"
  shows "\<exists>more. api_calls (events (decodeHeader_loop env c w data sz)) =
           (mCodec c, IVD_CMD_VIDEO_DECODE
              \<lparr>pv_stream_buffer = data, u4_num_Bytes = of_nat sz, s_out_buffer = out_buf_zero\<rparr>)
           # more"
  using assms by (simp add: decodeHeader_loop_pos Let_def)

subsection \<open>decodeHeader\<close>

lemma decodeHeader_kept [simp]:
  "mColorFormat (codec (decodeHeader env c w data sz)) = mColorFormat c"
  "mNumCores (codec (decodeHeader env c w data sz)) = mNumCores c"
  "mCodec (codec (decodeHeader env c w data sz)) = mCodec c"
  "mOutBufHandle (codec (decodeHeader env c w data sz)) = mOutBufHandle c"
  by (simp_all add: decodeHeader_def Let_def)

lemma decodeHeader_events:
  "events (decodeHeader env c w data sz) =
     ApiCall (mCodec c) (IVD_CMD_CTL_SETPARAMS IVD_DECODE_HEADER)
     # events (decodeHeader_loop env c (world (setParams env c w IVD_DECODE_HEADER)) data sz)"
  by (simp add: decodeHeader_def Let_def)


subsection \<open>decodeFrame\<close>

lemma decodeFrame_submit_events:
  "snd (decodeFrame_submit env c w data sz) =
     (let call = ApiCall (mCodec c) (IVD_CMD_VIDEO_DECODE
            \<lparr>pv_stream_buffer = data, u4_num_Bytes = of_nat sz, s_out_buffer = mOutBufHandle c\<rparr>)
      in if IVD_RES_CHANGED env =
              (u4_error_code (api_out (ivd_api_function env w (mCodec c)
                 (IVD_CMD_VIDEO_DECODE
                    \<lparr>pv_stream_buffer = data, u4_num_Bytes = of_nat sz,
                     s_out_buffer = mOutBufHandle c\<rparr>) op_zero)) AND 0xFF)
         then [call, ApiCall (mCodec c) IVD_CMD_CTL_RESET, call]
         else [call])"
  by (simp add: decodeFrame_submit_def Let_def)

lemma decodeFrame_submit_projections [simp]:
  "advances (snd (decodeFrame_submit env c w data sz)) = []"
  "allocs (snd (decodeFrame_submit env c w data sz)) = []"
  "frees (snd (decodeFrame_submit env c w data sz)) = []"
  by (simp_all add: decodeFrame_submit_events Let_def)

lemma decodeFrame_submit_handles:
  "\<forall>x \<in> set (api_calls (snd (decodeFrame_submit env c w data sz))). fst x = mCodec c"
  by (simp add: decodeFrame_submit_events Let_def)

lemma decodeFrame_submit_first_call:
  "\<exists>more. api_calls (snd (decodeFrame_submit env c w data sz)) =
     (mCodec c, IVD_CMD_VIDEO_DECODE
        \<lparr>pv_stream_buffer = data, u4_num_Bytes = of_nat sz, s_out_buffer = mOutBufHandle c\<rparr>)
     # more"
  by (simp add: decodeFrame_submit_events Let_def)

lemma decodeFrame_kept [simp]:
  "mColorFormat (codec (decodeFrame env c w data sz)) = mColorFormat c"
  "mNumCores (codec (decodeFrame env c w data sz)) = mNumCores c"
  "mCodec (codec (decodeFrame env c w data sz)) = mCodec c"
  by (simp_all add: decodeFrame_def Let_def)

lemma decodeFrame_bytesConsumed:
  "bytesConsumed (decodeFrame env c w data sz) =
     (if u4_num_bytes_consumed (api_out (fst (decodeFrame_submit env c w data sz))) = 0 then 4
      else unat (u4_num_bytes_consumed (api_out (fst (decodeFrame_submit env c w data sz)))))"
  by (simp add: decodeFrame_def Let_def unat_eq_0)

lemma decodeFrame_bytesConsumed_pos: "0 < bytesConsumed (decodeFrame env c w data sz)"
  by (simp add: decodeFrame_bytesConsumed unat_gt_0)

lemma decodeFrame_advances [simp]: "advances (events (decodeFrame env c w data sz)) = []"
  by (simp add: decodeFrame_def Let_def)

lemma decodeFrame_api_calls:
  "api_calls (events (decodeFrame env c w data sz))
     = api_calls (snd (decodeFrame_submit env c w data sz))"
  by (simp add: decodeFrame_def Let_def)

lemma decodeFrame_clamped:
  "mWidth c \<le> 10240 \<Longrightarrow> mHeight c \<le> 10240 \<Longrightarrow>
   mWidth (codec (decodeFrame env c w data sz)) \<le> 10240
   \<and> mHeight (codec (decodeFrame env c w data sz)) \<le> 10240"
  by (auto simp add: decodeFrame_def Let_def)

subsection \<open>The frame loop\<close>

lemma frame_loop_0:
  "frame_loop env c w data 0 = \<lparr>codec = c, world = w, events = []\<rparr>"
  by (subst frame_loop.simps) simp

lemma frame_loop_pos:
  "0 < sz \<Longrightarrow>
   frame_loop env c w data sz =
     (let s = frame_body env c w data sz;
          t = frame_loop env (codec s) (world s) (rest s) (left s)
      in \<lparr>codec = codec t, world = world t, events = events s @ events t\<rparr>)"
  by (subst frame_loop.simps) simp

lemma frame_body_left:
  "0 < sz \<Longrightarrow> left (frame_body env c w data sz) < sz"
  "left (frame_body env c w data sz) \<le> sz"
  using decodeFrame_bytesConsumed_pos [of env c w data sz]
  by (auto simp add: frame_body_def Let_def min_def)

lemma frame_body_events:
  "events (frame_body env c w data sz) =
     events (decodeFrame env c w data sz) @ [Advance (sz - left (frame_body env c w data sz))]"
  by (simp add: frame_body_def Let_def)


lemma frame_body_codec [simp]:
  "codec (frame_body env c w data sz) = codec (decodeFrame env c w data sz)"
  by (simp add: frame_body_def Let_def)

lemma frame_body_projections [simp]:
  "advances (events (frame_body env c w data sz)) = [sz - left (frame_body env c w data sz)]"
  "api_calls (events (frame_body env c w data sz))
     = api_calls (snd (decodeFrame_submit env c w data sz))"
  by (simp_all add: frame_body_events decodeFrame_api_calls)

lemma frame_loop_kept [simp]:
  "mColorFormat (codec (frame_loop env c w data sz)) = mColorFormat c"
  "mNumCores (codec (frame_loop env c w data sz)) = mNumCores c"
  "mCodec (codec (frame_loop env c w data sz)) = mCodec c"
proof (induction env c w data sz rule: frame_loop.induct)
  case (1 env c w data sz)
  {
    case 1
    show ?case
    proof (cases "0 < sz")
      case True
      with "1.IH"(1) show ?thesis
        by (simp add: frame_loop_pos Let_def)
    next
      case False
      then show ?thesis by (simp add: frame_loop_0)
    qed
  next
    case 2
    show ?case
    proof (cases "0 < sz")
      case True
      with "1.IH"(2) show ?thesis
        by (simp add: frame_loop_pos Let_def)
    next
      case False
      then show ?thesis by (simp add: frame_loop_0)
    qed
  next
    case 3
    show ?case
    proof (cases "0 < sz")
      case True
      with "1.IH"(3) show ?thesis
        by (simp add: frame_loop_pos Let_def)
    next
      case False
      then show ?thesis by (simp add: frame_loop_0)
    qed
  }
qed


lemma frame_loop_handles:
  "\<forall>x \<in> set (api_calls (events (frame_loop env c w data sz))). fst x = mCodec c"
proof (induction env c w data sz rule: frame_loop.induct)
  case (1 env c w data sz)
  show ?case
  proof (cases "0 < sz")
    case True
    with 1 decodeFrame_submit_handles [of env c w data sz] show ?thesis
      by (auto simp add: frame_loop_pos Let_def)
  next
    case False
    then show ?thesis by (simp add: frame_loop_0)
  qed
qed

lemma frame_loop_first_call:
  assumes "0 < sz"
  shows "\<exists>more. api_calls (events (frame_loop env c w data sz)) =
           (mCodec c, IVD_CMD_VIDEO_DECODE
              \<lparr>pv_stream_buffer = data, u4_num_Bytes = of_nat sz,
               s_out_buffer = mOutBufHandle c\<rparr>)
           # more"
  using assms decodeFrame_submit_first_call [of env c w data sz]
  by (auto simp add: frame_loop_pos Let_def)


subsection \<open>The session\<close>

lemma freeFrame_projections [simp]:
  "advances (events (freeFrame env c w)) = []"
  "api_calls (events (freeFrame env c w)) = []"
  "allocs (events (freeFrame env c w)) = []"
  "frees (events (freeFrame env c w)) = live_bufs (mOutBufHandle c)"
  by (simp_all add: freeFrame_events)

lemma createCodec_kept [simp]:
  "mColorFormat (codec (createCodec env c w)) = mColorFormat c"
  "mNumCores (codec (createCodec env c w)) = mNumCores c"
  "mOutBufHandle (codec (createCodec env c w)) = mOutBufHandle c"
  "mWidth (codec (createCodec env c w)) = mWidth c"
  "mHeight (codec (createCodec env c w)) = mHeight c"
  by (simp_all add: createCodec_codec)

lemma new_Codec_fields [simp]:
  "mColorFormat (new_Codec fmt n) = fmt" "mNumCores (new_Codec fmt n) = n"
  "mCodec (new_Codec fmt n) = None" "mOutBufHandle (new_Codec fmt n) = out_buf_zero"
  "mWidth (new_Codec fmt n) = 0" "mHeight (new_Codec fmt n) = 0"
  by (simp_all add: new_Codec_def)

text \<open>
  The advances of a session are those of its header loop followed by those of
  its frame loop, both run on the whole input.
\<close>

lemma session_advances:
  "\<exists>cH wH cF wF.
     advances (events (session env w data sz fmt n)) =
       advances (events (decodeHeader_loop env cH wH data sz))
       @ advances (events (frame_loop env cF wF data sz))"
  by (simp add: session_def session_setup_def Let_def decodeHeader_events) blast

text \<open>
  The library calls of a session on a nonempty input, with \<open>h\<close> the handle
  that \<open>createCodec\<close> leaves in the object.
\<close>

lemma session_api_calls:
  assumes "0 < sz" and h_def: "h = mCodec (codec (createCodec env (new_Codec fmt n) w))"
  shows "\<exists>hdr_more bufs frm_more.
     api_calls (events (session env w data sz fmt n)) =
       [(None, IVD_CMD_CREATE fmt),
        (h, IH264D_CMD_CTL_SET_NUM_CORES (of_nat n)),
        (h, IVD_CMD_CTL_SETPARAMS IVD_DECODE_HEADER),
        (h, IVD_CMD_VIDEO_DECODE
              \<lparr>pv_stream_buffer = data, u4_num_Bytes = of_nat sz, s_out_buffer = out_buf_zero\<rparr>)]
       @ hdr_more
       @ [(h, IVD_CMD_CTL_SETPARAMS IVD_DECODE_FRAME),
          (h, IVD_CMD_VIDEO_DECODE
              \<lparr>pv_stream_buffer = data, u4_num_Bytes = of_nat sz, s_out_buffer = bufs\<rparr>)]
       @ frm_more
       @ [(h, IVD_CMD_DELETE)]
     \<and> (\<forall>x \<in> set hdr_more. fst x = h) \<and> (\<forall>x \<in> set frm_more. fst x = h)
     \<and> (\<forall>x \<in> set hdr_more. \<exists>d. snd x = IVD_CMD_VIDEO_DECODE d \<and> s_out_buffer d = out_buf_zero)"
proof -
  let ?r1 = "createCodec env (new_Codec fmt n) w"
  let ?r2 = "setCores env (codec ?r1) (world ?r1)"
  let ?p = "setParams env (codec ?r1) (world ?r2) IVD_DECODE_HEADER"
  let ?hl = "decodeHeader_loop env (codec ?r1) (world ?p) data sz"
  let ?r3 = "decodeHeader env (codec ?r1) (world ?r2) data sz"
  let ?r4 = "setParams env (codec ?r3) (world ?r3) IVD_DECODE_FRAME"
  let ?r5 = "allocFrame env (codec ?r3) (world ?r4)"
  let ?fl = "frame_loop env (codec ?r5) (world ?r5) data sz"
  have h1: "mCodec (codec ?r1) = h"
    by (simp add: h_def)
  obtain hm where hm: "api_calls (events ?hl) =
      (h, IVD_CMD_VIDEO_DECODE
              \<lparr>pv_stream_buffer = data, u4_num_Bytes = of_nat sz, s_out_buffer = out_buf_zero\<rparr>) # hm"
    using decodeHeader_loop_first_call [OF assms(1), of env "codec ?r1" "world ?p" data] h1
    by auto
  have hh: "\<forall>x \<in> set hm. fst x = h"
    using decodeHeader_loop_handles [of env "codec ?r1" "world ?p" data sz] hm h1 by simp
  obtain fm where fm: "api_calls (events ?fl) =
      (h, IVD_CMD_VIDEO_DECODE
              \<lparr>pv_stream_buffer = data, u4_num_Bytes = of_nat sz,
               s_out_buffer = mOutBufHandle (codec ?r5)\<rparr>) # fm"
    using frame_loop_first_call [OF assms(1), of env "codec ?r5" "world ?r5" data] h1
    by auto
  have hd: "\<forall>x \<in> set hm. \<exists>d. snd x = IVD_CMD_VIDEO_DECODE d \<and> s_out_buffer d = out_buf_zero"
    using decodeHeader_loop_calls_decode [of env "codec ?r1" "world ?p" data sz] hm by simp
  have fh: "\<forall>x \<in> set fm. fst x = h"
    using frame_loop_handles [of env "codec ?r5" "world ?r5" data sz] fm h1 by simp
  have "api_calls (events (session env w data sz fmt n)) =
       [(None, IVD_CMD_CREATE fmt),
        (h, IH264D_CMD_CTL_SET_NUM_CORES (of_nat n)),
        (h, IVD_CMD_CTL_SETPARAMS IVD_DECODE_HEADER)]
       @ api_calls (events ?hl)
       @ [(h, IVD_CMD_CTL_SETPARAMS IVD_DECODE_FRAME)]
       @ api_calls (events ?fl)
       @ [(h, IVD_CMD_DELETE)]"
    by (simp add: session_def session_setup_def Let_def decodeHeader_events h1)
  then have "api_calls (events (session env w data sz fmt n)) =
       [(None, IVD_CMD_CREATE fmt),
        (h, IH264D_CMD_CTL_SET_NUM_CORES (of_nat n)),
        (h, IVD_CMD_CTL_SETPARAMS IVD_DECODE_HEADER),
        (h, IVD_CMD_VIDEO_DECODE
              \<lparr>pv_stream_buffer = data, u4_num_Bytes = of_nat sz, s_out_buffer = out_buf_zero\<rparr>)]
       @ hm
       @ [(h, IVD_CMD_CTL_SETPARAMS IVD_DECODE_FRAME),
          (h, IVD_CMD_VIDEO_DECODE
              \<lparr>pv_stream_buffer = data, u4_num_Bytes = of_nat sz,
               s_out_buffer = mOutBufHandle (codec ?r5)\<rparr>)]
       @ fm
       @ [(h, IVD_CMD_DELETE)]"
    by (simp add: hm fm)
  with hh fh hd show ?thesis by blast
qed

lemma entry_point_session:
  assumes "1 \<le> length data"
  shows "LLVMFuzzerTestOneInput env w data =
           Some (session env w data (length data)
                   (supportedColorFormats ! (unat (data ! colorFormatOfst (length data)) mod 6))
                   (unat (data ! numCoresOfst (length data)) mod 4 + 1))"
proof -
  have "data \<noteq> []"
    using assms by auto
  then show ?thesis
    by (simp add: LLVMFuzzerTestOneInput_def selectConfig_value [OF assms] Let_def)
qed

subsection \<open>Runs of the example environments\<close>

lemma demo_env_fields [simp]:
  "ivd_api_function (demo_env st reply) w h (IVD_CMD_CREATE f) op
     = \<lparr>api_ret = st, api_out = op\<lparr>pv_handle := 1\<rparr>, api_world = w\<rparr>"
  "ivd_api_function (demo_env st reply) w h (IVD_CMD_VIDEO_DECODE d) op
     = \<lparr>api_ret = (if h = None then IV_FAIL else IV_SUCCESS), api_out = reply op, api_world = w\<rparr>"
  "ivd_api_function (demo_env st reply) w h IVD_CMD_DELETE op
     = \<lparr>api_ret = (if h = None then IV_FAIL else IV_SUCCESS), api_out = op, api_world = w\<rparr>"
  "ivd_api_function (demo_env st reply) w h IVD_CMD_CTL_RESET op
     = \<lparr>api_ret = (if h = None then IV_FAIL else IV_SUCCESS), api_out = op, api_world = w\<rparr>"
  "ivd_api_function (demo_env st reply) w h (IH264D_CMD_CTL_SET_NUM_CORES k) op
     = \<lparr>api_ret = (if h = None then IV_FAIL else IV_SUCCESS), api_out = op, api_world = w\<rparr>"
  "ivd_api_function (demo_env st reply) w h (IVD_CMD_CTL_SETPARAMS m) op
     = \<lparr>api_ret = (if h = None then IV_FAIL else IV_SUCCESS), api_out = op, api_world = w\<rparr>"
  "memalign (demo_env st reply) w a s = (Suc w, Suc w)"
  "free (demo_env st reply) w p = w"
  "IVD_RES_CHANGED (demo_env st reply) = 0x2B"
  by (simp_all add: demo_env_def)







lemma nothing_header_body:
  "left (decodeHeader_body (demo_env st reply_nothing) c w data sz) = sz - min sz 4"
  "mWidth (codec (decodeHeader_body (demo_env st reply_nothing) c w data sz)) = 0"
  "mHeight (codec (decodeHeader_body (demo_env st reply_nothing) c w data sz)) = 0"
  by (simp_all add: decodeHeader_body_def Let_def reply_nothing_def op_zero_def)

lemma nothing_header_loop_one_byte:
  "mWidth (codec (decodeHeader_loop (demo_env st reply_nothing) c w [0] 1)) = 0"
  "mHeight (codec (decodeHeader_loop (demo_env st reply_nothing) c w [0] 1)) = 0"
  "advances (events (decodeHeader_loop (demo_env st reply_nothing) c w [0] 1)) = [1]"
  by (simp_all add: decodeHeader_loop_pos decodeHeader_loop_0 Let_def nothing_header_body)


lemma select_one_zero_byte: "selectConfig [0 :: u8] = Some (IV_YUV_420P, 1)"
  by (simp add: selectConfig_def byte_at_def colorFormatOfst_def numCoresOfst_def
      OFFSET_COLOR_FORMAT_def OFFSET_NUM_CORES_def kSupportedColorFormats_def kMaxCores_def
      supportedColorFormats_def)

lemma entry_point_selected:
  assumes "1 \<le> length data" and "selectConfig data = Some (fmt, n)"
  shows "LLVMFuzzerTestOneInput env w data = Some (session env w data (length data) fmt n)"
proof -
  have "data \<noteq> []"
    using assms(1) by auto
  then show ?thesis
    by (simp add: LLVMFuzzerTestOneInput_def assms(2))
qed

lemma createCodec_failed:
  assumes "api_ret (ivd_api_function env w None (IVD_CMD_CREATE fmt) op_zero) \<noteq> IV_SUCCESS"
  shows "mCodec (codec (createCodec env (new_Codec fmt n) w)) = None"
  using assms by (simp add: createCodec_codec)

lemma frame_sizes_words:
  fixes w h :: u32
  shows "take (planeCount fmt) (fst (frame_sizes fmt w h)) = map unat (planeSizes fmt w h)"
  by (cases fmt) (simp_all add: drop_bit_eq_div)

lemma frame_sizes_default:
  "frame_sizes (IV_COLOR_FORMAT_OTHER k) w h = frame_sizes IV_YUV_420P w h"
  by simp

lemma allocFrame_allocs_clamped:
  assumes "mWidth c \<le> 10240" and "mHeight c \<le> 10240"
  shows "allocs (events (allocFrame env c w)) =
           map (\<lambda>s. (16, s)) (planeSizes (mColorFormat c) (unat (mWidth c)) (unat (mHeight c)))"
  by (simp only: allocFrame_allocs frame_sizes_clamped [OF assms])

lemma default_geometry_clamped: "(1920 :: u32) \<le> 10240" "(1088 :: u32) \<le> 10240"
  by simp_all

lemma default_geometry_planes:
  "planeSizes IV_YUV_420P (unat (1920 :: u32)) (unat (1088 :: u32)) = [2088960, 522240, 522240]"
  by simp

lemma decodeFrame_realloc_events:
  assumes "mWidth c \<noteq> u4_pic_wd (api_out (fst (decodeFrame_submit env c w data sz)))
         \<or> mHeight c \<noteq> u4_pic_ht (api_out (fst (decodeFrame_submit env c w data sz)))"
  shows "codec (decodeFrame env c w data sz) =
           codec (allocFrame env
                (c\<lparr>mWidth := min (u4_pic_wd (api_out (fst (decodeFrame_submit env c w data sz)))) 10240,
                   mHeight := min (u4_pic_ht (api_out (fst (decodeFrame_submit env c w data sz)))) 10240\<rparr>)
                (api_world (fst (decodeFrame_submit env c w data sz))))"
    and "events (decodeFrame env c w data sz) =
           snd (decodeFrame_submit env c w data sz)
           @ events (allocFrame env
                (c\<lparr>mWidth := min (u4_pic_wd (api_out (fst (decodeFrame_submit env c w data sz)))) 10240,
                   mHeight := min (u4_pic_ht (api_out (fst (decodeFrame_submit env c w data sz)))) 10240\<rparr>)
                (api_world (fst (decodeFrame_submit env c w data sz))))"
  using assms by (auto simp add: decodeFrame_def Let_def)

lemma decodeFrame_unchanged_events:
  assumes "\<not> (mWidth c \<noteq> u4_pic_wd (api_out (fst (decodeFrame_submit env c w data sz)))
         \<or> mHeight c \<noteq> u4_pic_ht (api_out (fst (decodeFrame_submit env c w data sz))))"
  shows "codec (decodeFrame env c w data sz) = c"
    and "events (decodeFrame env c w data sz) = snd (decodeFrame_submit env c w data sz)"
  using assms by (auto simp add: decodeFrame_def Let_def)












subsection \<open>A one-byte input\<close>

lemma decodeHeader_loop_last_byte:
  assumes "sz = 1"
  shows "advances (events (decodeHeader_loop env c w data sz)) = [sz]"
    and "api_calls (events (decodeHeader_loop env c w data sz)) =
     [(mCodec c, IVD_CMD_VIDEO_DECODE
         \<lparr>pv_stream_buffer = data, u4_num_Bytes = of_nat sz, s_out_buffer = out_buf_zero\<rparr>)]"
    and "codec (decodeHeader_loop env c w data sz) = codec (decodeHeader_body env c w data sz)"
proof -
  have pos: "0 < sz"
    using assms by simp
  have l: "left (decodeHeader_body env c w data sz) = 0"
    using decodeHeader_body_left(1) [OF pos, of env c w data] assms by simp
  show "advances (events (decodeHeader_loop env c w data sz)) = [sz]"
    by (simp add: decodeHeader_loop_pos [OF pos] Let_def l decodeHeader_loop_0)
  show "api_calls (events (decodeHeader_loop env c w data sz)) =
     [(mCodec c, IVD_CMD_VIDEO_DECODE
         \<lparr>pv_stream_buffer = data, u4_num_Bytes = of_nat sz, s_out_buffer = out_buf_zero\<rparr>)]"
    by (simp add: decodeHeader_loop_pos [OF pos] Let_def l decodeHeader_loop_0)
  show "codec (decodeHeader_loop env c w data sz) = codec (decodeHeader_body env c w data sz)"
    by (simp add: decodeHeader_loop_pos [OF pos] Let_def l decodeHeader_loop_0)
qed

lemmas decodeHeader_loop_one_byte = decodeHeader_loop_last_byte [OF refl, unfolded of_nat_1]

lemma frame_loop_last_byte:
  assumes "sz = 1"
  shows "advances (events (frame_loop env c w data sz)) = [sz]"
proof -
  have pos: "0 < sz"
    using assms by simp
  have l: "left (frame_body env c w data sz) = 0"
    using frame_body_left(1) [OF pos, of env c w data] assms by simp
  show ?thesis
    by (simp add: frame_loop_pos [OF pos] Let_def l frame_loop_0)
qed

lemmas frame_loop_one_byte = frame_loop_last_byte [OF refl]

lemma decodeHeader_body_geometry:
  "mWidth (codec (decodeHeader_body env c w data sz)) =
     min (u4_pic_wd (api_out (ivd_api_function env w (mCodec c)
        (IVD_CMD_VIDEO_DECODE
           \<lparr>pv_stream_buffer = data, u4_num_Bytes = of_nat sz, s_out_buffer = out_buf_zero\<rparr>)
        op_zero))) 10240"
  "mHeight (codec (decodeHeader_body env c w data sz)) =
     min (u4_pic_ht (api_out (ivd_api_function env w (mCodec c)
        (IVD_CMD_VIDEO_DECODE
           \<lparr>pv_stream_buffer = data, u4_num_Bytes = of_nat sz, s_out_buffer = out_buf_zero\<rparr>)
        op_zero))) 10240"
  by (simp_all add: decodeHeader_body_def Let_def)

lemma decodeHeader_last_byte_default:
  assumes "sz = 1"
    and "u4_pic_wd (api_out (ivd_api_function env
              (world (setParams env c w IVD_DECODE_HEADER)) (mCodec c)
              (IVD_CMD_VIDEO_DECODE
                 \<lparr>pv_stream_buffer = data, u4_num_Bytes = of_nat sz, s_out_buffer = out_buf_zero\<rparr>)
              op_zero)) = 0"
    and "u4_pic_ht (api_out (ivd_api_function env
              (world (setParams env c w IVD_DECODE_HEADER)) (mCodec c)
              (IVD_CMD_VIDEO_DECODE
                 \<lparr>pv_stream_buffer = data, u4_num_Bytes = of_nat sz, s_out_buffer = out_buf_zero\<rparr>)
              op_zero)) = 0"
  shows "mWidth (codec (decodeHeader env c w data sz)) = 1920"
    and "mHeight (codec (decodeHeader env c w data sz)) = 1088"
proof -
  have g: "mWidth (codec (decodeHeader_loop env c (world (setParams env c w IVD_DECODE_HEADER))
             data sz)) = 0"
    "mHeight (codec (decodeHeader_loop env c (world (setParams env c w IVD_DECODE_HEADER))
             data sz)) = 0"
    unfolding decodeHeader_loop_last_byte(3) [OF assms(1)]
    using assms(2,3) decodeHeader_body_geometry
            [of env c "world (setParams env c w IVD_DECODE_HEADER)" data sz]
    by simp_all
  show "mWidth (codec (decodeHeader env c w data sz)) = 1920"
    and "mHeight (codec (decodeHeader env c w data sz)) = 1088"
    by (simp_all add: decodeHeader_def Let_def g)
qed

lemmas decodeHeader_one_byte_default = decodeHeader_last_byte_default [OF refl, unfolded of_nat_1]

lemma session_setup_allocs:
  "allocs (events (session_setup env w data sz fmt n)) =
     allocs (events (allocFrame env
       (codec (decodeHeader env (codec (createCodec env (new_Codec fmt n) w))
          (world (setCores env (codec (createCodec env (new_Codec fmt n) w))
                    (world (createCodec env (new_Codec fmt n) w)))) data sz))
       (world (setParams env
          (codec (decodeHeader env (codec (createCodec env (new_Codec fmt n) w))
             (world (setCores env (codec (createCodec env (new_Codec fmt n) w))
                       (world (createCodec env (new_Codec fmt n) w)))) data sz))
          (world (decodeHeader env (codec (createCodec env (new_Codec fmt n) w))
             (world (setCores env (codec (createCodec env (new_Codec fmt n) w))
                       (world (createCodec env (new_Codec fmt n) w)))) data sz))
          IVD_DECODE_FRAME))))"
  "mWidth (codec (session_setup env w data sz fmt n)) =
     mWidth (codec (decodeHeader env (codec (createCodec env (new_Codec fmt n) w))
          (world (setCores env (codec (createCodec env (new_Codec fmt n) w))
                    (world (createCodec env (new_Codec fmt n) w)))) data sz))"
  "mHeight (codec (session_setup env w data sz fmt n)) =
     mHeight (codec (decodeHeader env (codec (createCodec env (new_Codec fmt n) w))
          (world (setCores env (codec (createCodec env (new_Codec fmt n) w))
                    (world (createCodec env (new_Codec fmt n) w)))) data sz))"
  by (simp_all add: session_setup_def Let_def decodeHeader_events)

lemma session_ends_with_delete:
  "\<exists>pre bufs h. events (session env w data sz fmt n) =
      pre @ map Free (live_bufs bufs) @ [ApiCall h IVD_CMD_DELETE]"
proof -
  let ?r5 = "session_setup env w data sz fmt n"
  let ?r6 = "frame_loop env (codec ?r5) (world ?r5) data sz"
  let ?r7 = "freeFrame env (codec ?r6) (world ?r6)"
  have "events (session env w data sz fmt n) =
      (events ?r5 @ events ?r6) @ map Free (live_bufs (mOutBufHandle (codec ?r6)))
      @ [ApiCall (mCodec (codec ?r7)) IVD_CMD_DELETE]"
    by (simp add: session_def Let_def freeFrame_events)
  then show ?thesis
    by (intro exI)
qed

lemma one_zero_byte_run:
  "LLVMFuzzerTestOneInput env w [0] = Some (session env w [0] 1 IV_YUV_420P 1)"
proof -
  have len: "1 \<le> length [0 :: u8]" and one: "length [0 :: u8] = 1"
    by simp_all
  from entry_point_selected [OF len select_one_zero_byte, of env w]
  show ?thesis
    by (simp only: one)
qed

lemma one_byte_session_advances:
  "advances (events (session env w data 1 fmt n)) = [1, 1]"
proof -
  obtain cH wH cF wF where "advances (events (session env w data 1 fmt n)) =
       advances (events (decodeHeader_loop env cH wH data 1))
       @ advances (events (frame_loop env cF wF data 1))"
    using session_advances [of env w data 1 fmt n] by blast
  then show ?thesis
    by (simp only: decodeHeader_loop_one_byte(1) frame_loop_one_byte append.simps)
qed

lemma one_byte_session_setup_default:
  fixes env :: "'w env" and w :: 'w and data :: "u8 list"
  defines "r1 \<equiv> createCodec env (new_Codec IV_YUV_420P 1) w"
  defines "r2 \<equiv> setCores env (codec r1) (world r1)"
  defines "p \<equiv> setParams env (codec r2) (world r2) IVD_DECODE_HEADER"
  defines "rep \<equiv> api_out (ivd_api_function env (world p) (mCodec (codec r2))
              (IVD_CMD_VIDEO_DECODE
                 \<lparr>pv_stream_buffer = data, u4_num_Bytes = 1, s_out_buffer = out_buf_zero\<rparr>)
              op_zero)"
  assumes "u4_pic_wd rep = 0" and "u4_pic_ht rep = 0"
  shows "mWidth (codec (session_setup env w data 1 IV_YUV_420P 1)) = 1920"
    and "mHeight (codec (session_setup env w data 1 IV_YUV_420P 1)) = 1088"
    and "allocs (events (session_setup env w data 1 IV_YUV_420P 1)) =
           [(16, 2088960), (16, 522240), (16, 522240)]"
proof -
  define c3 where "c3 = codec (decodeHeader env (codec r1) (world r2) data 1)"
  have r2c: "codec r2 = codec r1"
    by (simp add: r2_def)
  have wd: "u4_pic_wd (api_out (ivd_api_function env
              (world (setParams env (codec r1) (world r2) IVD_DECODE_HEADER)) (mCodec (codec r1))
              (IVD_CMD_VIDEO_DECODE
                 \<lparr>pv_stream_buffer = data, u4_num_Bytes = 1, s_out_buffer = out_buf_zero\<rparr>)
              op_zero)) = 0"
    and ht: "u4_pic_ht (api_out (ivd_api_function env
              (world (setParams env (codec r1) (world r2) IVD_DECODE_HEADER)) (mCodec (codec r1))
              (IVD_CMD_VIDEO_DECODE
                 \<lparr>pv_stream_buffer = data, u4_num_Bytes = 1, s_out_buffer = out_buf_zero\<rparr>)
              op_zero)) = 0"
    using assms(5,6) unfolding rep_def p_def r2c by simp_all
  have g: "mWidth c3 = 1920" "mHeight c3 = 1088"
    unfolding c3_def by (rule decodeHeader_one_byte_default [OF wd ht])+
  have f: "mColorFormat c3 = IV_YUV_420P"
    by (simp add: c3_def r1_def)
  have cl: "mWidth c3 \<le> 10240" "mHeight c3 \<le> 10240"
    unfolding g by simp_all
  have stp: "allocs (events (session_setup env w data 1 IV_YUV_420P 1)) =
      allocs (events (allocFrame env c3
         (world (setParams env c3 (world (decodeHeader env (codec r1) (world r2) data 1))
                   IVD_DECODE_FRAME))))"
    "mWidth (codec (session_setup env w data 1 IV_YUV_420P 1)) = mWidth c3"
    "mHeight (codec (session_setup env w data 1 IV_YUV_420P 1)) = mHeight c3"
    unfolding c3_def r2_def r1_def by (rule session_setup_allocs)+
  show "mWidth (codec (session_setup env w data 1 IV_YUV_420P 1)) = 1920"
    and "mHeight (codec (session_setup env w data 1 IV_YUV_420P 1)) = 1088"
    unfolding stp g by simp_all
  show "allocs (events (session_setup env w data 1 IV_YUV_420P 1)) =
           [(16, 2088960), (16, 522240), (16, 522240)]"
    unfolding stp(1) allocFrame_allocs_clamped [OF cl] f g default_geometry_planes
    by simp
qed

lemma nothing_one_byte_run:
  "advances (events (the (LLVMFuzzerTestOneInput (demo_env IV_SUCCESS reply_nothing) 0 [0])))
     = [1, 1]"
  unfolding one_zero_byte_run option.sel by (rule one_byte_session_advances)




subsection \<open>Every buffer that is allocated is released\<close>

lemma alloc_ptrs_Nil: "allocs evs = [] \<Longrightarrow> alloc_ptrs evs = []"
  by (induction evs) (simp_all split: event.splits)

lemma out_buf_zero_live [simp]: "live_bufs out_buf_zero = []"
  by (simp add: live_bufs_def)

lemma allocFrame_bufs_length:
  "length (pu1_bufs (mOutBufHandle (codec (allocFrame env c w)))) = 4"
  by (simp add: allocFrame_def Let_def)

lemma unat_plane_count:
  assumes "n \<le> 3"
  shows "unat (of_nat n :: u32) = n"
proof -
  have "n < 2 ^ LENGTH(32)"
    using assms by simp
  then show ?thesis
    by (rule of_nat_inverse [OF refl])
qed

lemma allocFrame_live_bufs:
  "live_bufs (mOutBufHandle (codec (allocFrame env c w)))
     = filter (\<lambda>p. p \<noteq> 0) (alloc_ptrs (events (allocFrame env c w)))"
proof -
  let ?n = "snd (frame_sizes (mColorFormat c) (mWidth c) (mHeight c))"
  let ?b = "mOutBufHandle (codec (allocFrame env c w))"
  have n: "?n \<le> 3"
    by (rule frame_sizes_shape(1))
  have cnt: "unat (u4_num_bufs ?b) = ?n"
    unfolding allocFrame_descriptor(1) by (rule unat_plane_count [OF n])
  have "map (\<lambda>i. pu1_bufs ?b ! i) [0..<?n] = take ?n (pu1_bufs ?b)"
    using n by (intro map_nth_upt_take) (simp add: allocFrame_bufs_length)
  then show ?thesis
    unfolding live_bufs_def cnt by (simp only: allocFrame_descriptor(2))
qed

text \<open>
  The invariant of a session: the addresses released so far, followed by the
  non-null addresses the descriptor holds, are the non-null addresses that
  \<open>memalign\<close> has returned so far, in the same order.
\<close>

lemma allocFrame_balance:
  assumes "frees pre @ live_bufs (mOutBufHandle c) = filter (\<lambda>p. p \<noteq> 0) (alloc_ptrs pre)"
  shows "frees (pre @ events (allocFrame env c w))
           @ live_bufs (mOutBufHandle (codec (allocFrame env c w)))
         = filter (\<lambda>p. p \<noteq> 0) (alloc_ptrs (pre @ events (allocFrame env c w)))"
proof -
  have a: "alloc_ptrs (map Free (live_bufs (mOutBufHandle c))) = []"
    by simp
  have "filter (\<lambda>p. p \<noteq> 0) (alloc_ptrs (events (allocFrame env c w)))
          = live_bufs (mOutBufHandle (codec (allocFrame env c w)))"
    by (rule allocFrame_live_bufs [symmetric])
  with assms show ?thesis
    by simp
qed

lemma decodeFrame_submit_no_ptrs [simp]:
  "alloc_ptrs (snd (decodeFrame_submit env c w data sz)) = []"
  by (rule alloc_ptrs_Nil) simp

lemma decodeFrame_balance:
  assumes "frees pre @ live_bufs (mOutBufHandle c) = filter (\<lambda>p. p \<noteq> 0) (alloc_ptrs pre)"
  shows "frees (pre @ events (decodeFrame env c w data sz))
           @ live_bufs (mOutBufHandle (codec (decodeFrame env c w data sz)))
         = filter (\<lambda>p. p \<noteq> 0) (alloc_ptrs (pre @ events (decodeFrame env c w data sz)))"
proof (cases "mWidth c \<noteq> u4_pic_wd (api_out (fst (decodeFrame_submit env c w data sz)))
         \<or> mHeight c \<noteq> u4_pic_ht (api_out (fst (decodeFrame_submit env c w data sz)))")
  case True
  let ?c' = "c\<lparr>mWidth := min (u4_pic_wd (api_out (fst (decodeFrame_submit env c w data sz)))) 10240,
                mHeight := min (u4_pic_ht (api_out (fst (decodeFrame_submit env c w data sz)))) 10240\<rparr>"
  let ?pre = "pre @ snd (decodeFrame_submit env c w data sz)"
  have "frees ?pre @ live_bufs (mOutBufHandle ?c') = filter (\<lambda>p. p \<noteq> 0) (alloc_ptrs ?pre)"
    using assms by simp
  from allocFrame_balance [OF this, of env "api_world (fst (decodeFrame_submit env c w data sz))"]
  show ?thesis
    unfolding decodeFrame_realloc_events [OF True] by simp
next
  case False
  from assms show ?thesis
    unfolding decodeFrame_unchanged_events [OF False] by simp
qed

lemma frame_body_balance:
  assumes "frees pre @ live_bufs (mOutBufHandle c) = filter (\<lambda>p. p \<noteq> 0) (alloc_ptrs pre)"
  shows "frees (pre @ events (frame_body env c w data sz))
           @ live_bufs (mOutBufHandle (codec (frame_body env c w data sz)))
         = filter (\<lambda>p. p \<noteq> 0) (alloc_ptrs (pre @ events (frame_body env c w data sz)))"
  using decodeFrame_balance [OF assms, of env w data sz]
  by (simp add: frame_body_events)

lemma frame_loop_balance:
  "frees pre @ live_bufs (mOutBufHandle c) = filter (\<lambda>p. p \<noteq> 0) (alloc_ptrs pre) \<Longrightarrow>
   frees (pre @ events (frame_loop env c w data sz))
     @ live_bufs (mOutBufHandle (codec (frame_loop env c w data sz)))
   = filter (\<lambda>p. p \<noteq> 0) (alloc_ptrs (pre @ events (frame_loop env c w data sz)))"
proof (induction env c w data sz arbitrary: pre rule: frame_loop.induct)
  case (1 env c w data sz)
  show ?case
  proof (cases "0 < sz")
    case True
    let ?s = "frame_body env c w data sz"
    have step: "frees (pre @ events ?s) @ live_bufs (mOutBufHandle (codec ?s))
         = filter (\<lambda>p. p \<noteq> 0) (alloc_ptrs (pre @ events ?s))"
      by (rule frame_body_balance [OF "1.prems"])
    from "1.IH" [OF True refl step]
    show ?thesis
      by (simp add: frame_loop_pos [OF True] Let_def del: frame_body_codec)
  next
    case False
    with "1.prems" show ?thesis
      by (simp add: frame_loop_0)
  qed
qed

lemma decodeHeader_loop_no_ptrs [simp]:
  "alloc_ptrs (events (decodeHeader_loop env c w data sz)) = []"
  by (rule alloc_ptrs_Nil) simp

lemma session_setup_balance:
  "frees (events (session_setup env w data sz fmt n))
     @ live_bufs (mOutBufHandle (codec (session_setup env w data sz fmt n)))
   = filter (\<lambda>p. p \<noteq> 0) (alloc_ptrs (events (session_setup env w data sz fmt n)))"
proof -
  let ?r1 = "createCodec env (new_Codec fmt n) w"
  let ?r2 = "setCores env (codec ?r1) (world ?r1)"
  let ?r3 = "decodeHeader env (codec ?r1) (world ?r2) data sz"
  let ?r4 = "setParams env (codec ?r3) (world ?r3) IVD_DECODE_FRAME"
  let ?pre = "events ?r1 @ events ?r2 @ events ?r3 @ events ?r4"
  have "frees ?pre @ live_bufs (mOutBufHandle (codec ?r3)) = filter (\<lambda>p. p \<noteq> 0) (alloc_ptrs ?pre)"
    by (simp add: decodeHeader_events)
  from allocFrame_balance [OF this, of env "world ?r4"]
  show ?thesis
    by (simp add: session_setup_def Let_def)
qed

lemma session_release:
  "events (session env w data sz fmt n) =
     events (session_setup env w data sz fmt n)
     @ events (frame_loop env (codec (session_setup env w data sz fmt n))
                 (world (session_setup env w data sz fmt n)) data sz)
     @ map Free (live_bufs (mOutBufHandle (codec
         (frame_loop env (codec (session_setup env w data sz fmt n))
            (world (session_setup env w data sz fmt n)) data sz))))
     @ [ApiCall (mCodec (codec
         (frame_loop env (codec (session_setup env w data sz fmt n))
            (world (session_setup env w data sz fmt n)) data sz))) IVD_CMD_DELETE]"
  by (simp add: session_def Let_def freeFrame_events)

lemma session_balance:
  "frees (events (session env w data sz fmt n))
     = filter (\<lambda>p. p \<noteq> 0) (alloc_ptrs (events (session env w data sz fmt n)))"
proof -
  let ?su = "session_setup env w data sz fmt n"
  let ?fl = "frame_loop env (codec ?su) (world ?su) data sz"
  from frame_loop_balance [OF session_setup_balance, where env=env and w="world ?su"
         and data=data and sz=sz]
  have "frees (events ?su @ events ?fl) @ live_bufs (mOutBufHandle (codec ?fl))
       = filter (\<lambda>p. p \<noteq> 0) (alloc_ptrs (events ?su @ events ?fl))" .
  then show ?thesis
    unfolding session_release by simp
qed

section \<open>The configuration selector\<close>

text \<open>
  Claim C7. For every input of length at least 1 the layout is read at offset
  \<open>min(6, length - 1)\<close> and the core count at offset
  \<open>min(7, length - 1)\<close>: at 6 and 7 when the input reaches them, at
  \<open>length - 1\<close> otherwise, so never past the last byte; both reads succeed,
  the layout is entry \<open>input[offset] mod 6\<close> of the table of six layouts and
  the worker count is \<open>input[offset] mod 4 + 1\<close>, between 1 and 4; for a
  7-byte input both reads use index 6.
\<close>

theorem selectConfig_reads_in_bounds:
  assumes "1 \<le> length data"
  shows "colorFormatOfst (length data) \<le> length data - 1
       \<and> numCoresOfst (length data) \<le> length data - 1
       \<and> (length data \<le> OFFSET_COLOR_FORMAT \<longrightarrow> colorFormatOfst (length data) = length data - 1)
       \<and> (length data \<le> OFFSET_NUM_CORES \<longrightarrow> numCoresOfst (length data) = length data - 1)
       \<and> selectConfig data =
            Some (supportedColorFormats ! (unat (data ! colorFormatOfst (length data)) mod 6),
                  unat (data ! numCoresOfst (length data)) mod 4 + 1)
       \<and> unat (data ! colorFormatOfst (length data)) mod 6 < length supportedColorFormats
       \<and> 1 \<le> unat (data ! numCoresOfst (length data)) mod 4 + 1
       \<and> unat (data ! numCoresOfst (length data)) mod 4 + 1 \<le> 4
       \<and> (length data = 7 \<longrightarrow> colorFormatOfst (length data) = 6 \<and> numCoresOfst (length data) = 6)
       \<and> OFFSET_COLOR_FORMAT = 6 \<and> OFFSET_NUM_CORES = 7
       \<and> colorFormatOfst (length data) = min 6 (length data - 1)
       \<and> numCoresOfst (length data) = min 7 (length data - 1)
       \<and> (OFFSET_COLOR_FORMAT < length data \<longrightarrow> colorFormatOfst (length data) = 6)
       \<and> (OFFSET_NUM_CORES < length data \<longrightarrow> numCoresOfst (length data) = 7)
       \<and> selectConfig data =
            Some (supportedColorFormats ! (unat (data ! min 6 (length data - 1)) mod 6),
                  unat (data ! min 7 (length data - 1)) mod 4 + 1)
       \<and> supportedColorFormats =
            [IV_YUV_420P, IV_YUV_420SP_UV, IV_YUV_420SP_VU, IV_YUV_422ILE, IV_RGB_565,
             IV_RGBA_8888]"
proof -
  have c_ofs: "colorFormatOfst (length data) = min 6 (length data - 1)"
    and n_ofs: "numCoresOfst (length data) = min 7 (length data - 1)"
    by (simp_all add: colorFormatOfst_def numCoresOfst_def OFFSET_COLOR_FORMAT_def
        OFFSET_NUM_CORES_def)
  have offs: "OFFSET_COLOR_FORMAT = 6" "OFFSET_NUM_CORES = 7"
    by (simp_all add: OFFSET_COLOR_FORMAT_def OFFSET_NUM_CORES_def)
  have sel: "selectConfig data =
            Some (supportedColorFormats ! (unat (data ! colorFormatOfst (length data)) mod 6),
                  unat (data ! numCoresOfst (length data)) mod 4 + 1)"
    by (rule selectConfig_value [OF assms])
  have "colorFormatOfst (length data) \<le> length data - 1"
    and "numCoresOfst (length data) \<le> length data - 1"
    unfolding c_ofs n_ofs by simp_all
  moreover have "length data \<le> OFFSET_COLOR_FORMAT \<longrightarrow> colorFormatOfst (length data) = length data - 1"
    unfolding c_ofs offs by simp
  moreover have "length data \<le> OFFSET_NUM_CORES \<longrightarrow> numCoresOfst (length data) = length data - 1"
    unfolding n_ofs offs by simp
  moreover note sel
  moreover have "unat (data ! colorFormatOfst (length data)) mod 6 < length supportedColorFormats"
    by (simp add: length_supportedColorFormats)
  moreover have "1 \<le> unat (data ! numCoresOfst (length data)) mod 4 + 1"
    by simp
  moreover have "unat (data ! numCoresOfst (length data)) mod 4 + 1 \<le> 4"
  proof -
    have "unat (data ! numCoresOfst (length data)) mod 4 < 4" by simp
    then show ?thesis by linarith
  qed
  moreover have "length data = 7 \<longrightarrow> colorFormatOfst (length data) = 6 \<and> numCoresOfst (length data) = 6"
    unfolding c_ofs n_ofs by simp
  moreover note offs c_ofs n_ofs
  moreover have "OFFSET_COLOR_FORMAT < length data \<longrightarrow> colorFormatOfst (length data) = 6"
    unfolding c_ofs offs by simp
  moreover have "OFFSET_NUM_CORES < length data \<longrightarrow> numCoresOfst (length data) = 7"
    unfolding n_ofs offs by simp
  moreover have "selectConfig data =
            Some (supportedColorFormats ! (unat (data ! min 6 (length data - 1)) mod 6),
                  unat (data ! min 7 (length data - 1)) mod 4 + 1)"
    using sel unfolding c_ofs n_ofs .
  moreover note supportedColorFormats_def
  ultimately show ?thesis
    by (intro conjI)
qed

theorem selectConfig_reads_in_bounds_witness:
  "1 \<le> length [0, 0, 0, 0, 0, 0, 0 :: u8]
   \<and> colorFormatOfst (length [0, 0, 0, 0, 0, 0, 0 :: u8]) = 6
   \<and> numCoresOfst (length [0, 0, 0, 0, 0, 0, 0 :: u8]) = 6
   \<and> selectConfig [0, 0, 0, 0, 0, 0, 0] = Some (IV_YUV_420P, 1)
   \<and> 1 \<le> length [10, 11, 12, 13, 14, 15, 16, 17, 18 :: u8]
   \<and> OFFSET_NUM_CORES < length [10, 11, 12, 13, 14, 15, 16, 17, 18 :: u8]
   \<and> colorFormatOfst (length [10, 11, 12, 13, 14, 15, 16, 17, 18 :: u8]) = 6
   \<and> numCoresOfst (length [10, 11, 12, 13, 14, 15, 16, 17, 18 :: u8]) = 7
   \<and> selectConfig [10, 11, 12, 13, 14, 15, 16, 17, 18] = Some (IV_RGB_565, 2)"
proof -
  let ?a = "[0, 0, 0, 0, 0, 0, 0 :: u8]"
  let ?b = "[10, 11, 12, 13, 14, 15, 16, 17, 18 :: u8]"
  have len: "1 \<le> length ?a" and seven: "length ?a = 7"
    by simp_all
  have lenb: "1 \<le> length ?b" and nine: "length ?b - 1 = 8"
    and far: "OFFSET_COLOR_FORMAT < length ?b" "OFFSET_NUM_CORES < length ?b"
    by (simp_all add: OFFSET_COLOR_FORMAT_def OFFSET_NUM_CORES_def)
  from selectConfig_reads_in_bounds [OF len] seven
  have ofs: "colorFormatOfst (length ?a) = 6" "numCoresOfst (length ?a) = 6"
    and sel: "selectConfig ?a =
            Some (supportedColorFormats ! (unat (?a ! colorFormatOfst (length ?a)) mod 6),
                  unat (?a ! numCoresOfst (length ?a)) mod 4 + 1)"
    and tab: "supportedColorFormats =
            [IV_YUV_420P, IV_YUV_420SP_UV, IV_YUV_420SP_VU, IV_YUV_422ILE, IV_RGB_565,
             IV_RGBA_8888]"
    by blast+
  have a: "selectConfig ?a = Some (IV_YUV_420P, 1)"
    unfolding sel ofs tab by simp
  from selectConfig_reads_in_bounds [OF lenb] far
  have ofsb: "colorFormatOfst (length ?b) = 6" "numCoresOfst (length ?b) = 7"
    and selb: "selectConfig ?b =
            Some (supportedColorFormats ! (unat (?b ! colorFormatOfst (length ?b)) mod 6),
                  unat (?b ! numCoresOfst (length ?b)) mod 4 + 1)"
    by blast+
  have b: "selectConfig ?b = Some (IV_RGB_565, 2)"
    unfolding selb ofsb tab by simp
  from len ofs a lenb far(2) ofsb b show ?thesis
    by (intro conjI)
qed

section \<open>Header discovery\<close>

text \<open>
  Claim C8. After the header loop, a geometry that is still (0, 0) becomes
  1920 x 1088, and in every case the width and the height that
  \<open>decodeHeader\<close> leaves are both nonzero; \<open>setParams\<close>, the only call
  between \<open>decodeHeader\<close> and \<open>allocFrame\<close>, does not change the object.
\<close>

theorem decodeHeader_default_geometry:
  "(let p = setParams env c w IVD_DECODE_HEADER;
        l = decodeHeader_loop env (codec p) (world p) data sz;
        r = decodeHeader env c w data sz;
        a = setParams env (codec r) (world r) IVD_DECODE_FRAME
    in (mWidth (codec l) = 0 \<and> mHeight (codec l) = 0 \<longrightarrow>
          mWidth (codec r) = 1920 \<and> mHeight (codec r) = 1088)
       \<and> mWidth (codec r) \<noteq> 0 \<and> mHeight (codec r) \<noteq> 0
       \<and> codec a = codec r)"
  by (simp add: decodeHeader_def setParams_def Let_def)

theorem decodeHeader_default_geometry_witness:
  "mWidth (codec (decodeHeader_loop (demo_env IV_SUCCESS reply_nothing)
      (new_Codec IV_YUV_420P 1) 0 [0] 1)) = 0
   \<and> mHeight (codec (decodeHeader_loop (demo_env IV_SUCCESS reply_nothing)
      (new_Codec IV_YUV_420P 1) 0 [0] 1)) = 0
   \<and> mWidth (codec (decodeHeader (demo_env IV_SUCCESS reply_nothing)
      (new_Codec IV_YUV_420P 1) 0 [0] 1)) = 1920
   \<and> mHeight (codec (decodeHeader (demo_env IV_SUCCESS reply_nothing)
      (new_Codec IV_YUV_420P 1) 0 [0] 1)) = 1088"
proof -
  have w: "world (setParams (demo_env IV_SUCCESS reply_nothing) (new_Codec IV_YUV_420P 1) 0
             IVD_DECODE_HEADER) = 0"
    by (simp add: setParams_def)
  note z = nothing_header_loop_one_byte(1,2)
             [of IV_SUCCESS "new_Codec IV_YUV_420P 1" 0]
  from decodeHeader_default_geometry
         [of "demo_env IV_SUCCESS reply_nothing" "new_Codec IV_YUV_420P 1" 0 "[0]" 1,
          unfolded Let_def setParams_codec w] z
  have "mWidth (codec (decodeHeader (demo_env IV_SUCCESS reply_nothing)
            (new_Codec IV_YUV_420P 1) 0 [0] 1)) = 1920
      \<and> mHeight (codec (decodeHeader (demo_env IV_SUCCESS reply_nothing)
            (new_Codec IV_YUV_420P 1) 0 [0] 1)) = 1088"
    by blast
  with z show ?thesis
    by blast
qed

section \<open>Termination and forward progress\<close>






section \<open>The order of the library calls\<close>

text \<open>
  Claim C10. On a nonempty input the first request of the header phase and the
  first request after the switch to frame mode both carry the whole input and
  its full length: the frame loop starts again at byte 0, so the bytes the
  header phase consumed are submitted a second time.
\<close>

theorem frame_phase_restarts_at_byte_0:
  assumes "1 \<le> length data"
  shows "\<exists>r fmt n h hdr_more bufs frm_more.
       LLVMFuzzerTestOneInput env w data = Some r
     \<and> api_calls (events r) =
         [(None, IVD_CMD_CREATE fmt),
          (h, IH264D_CMD_CTL_SET_NUM_CORES (of_nat n)),
          (h, IVD_CMD_CTL_SETPARAMS IVD_DECODE_HEADER),
          (h, IVD_CMD_VIDEO_DECODE
                \<lparr>pv_stream_buffer = data, u4_num_Bytes = of_nat (length data),
                 s_out_buffer = out_buf_zero\<rparr>)]
         @ hdr_more
         @ [(h, IVD_CMD_CTL_SETPARAMS IVD_DECODE_FRAME),
            (h, IVD_CMD_VIDEO_DECODE
                \<lparr>pv_stream_buffer = data, u4_num_Bytes = of_nat (length data),
                 s_out_buffer = bufs\<rparr>)]
         @ frm_more
         @ [(h, IVD_CMD_DELETE)]
     \<and> (\<forall>x \<in> set hdr_more. \<exists>d. snd x = IVD_CMD_VIDEO_DECODE d \<and> s_out_buffer d = out_buf_zero)"
proof -
  define fmt where
    "fmt = supportedColorFormats ! (unat (data ! colorFormatOfst (length data)) mod 6)"
  define n where "n = unat (data ! numCoresOfst (length data)) mod 4 + 1"
  define h where "h = mCodec (codec (createCodec env (new_Codec fmt n) w))"
  have run: "LLVMFuzzerTestOneInput env w data = Some (session env w data (length data) fmt n)"
    unfolding fmt_def n_def by (rule entry_point_session [OF assms])
  have pos: "0 < length data"
    using assms by linarith
  from session_api_calls [OF pos h_def, of data] run
  show ?thesis
    by blast
qed

theorem frame_phase_restarts_at_byte_0_witness:
  "1 \<le> length [0, 0 :: u8]
   \<and> (\<exists>r fmt n h hdr_more bufs frm_more.
       LLVMFuzzerTestOneInput (demo_env IV_SUCCESS reply_one_byte) 0 [0, 0] = Some r
     \<and> api_calls (events r) =
         [(None, IVD_CMD_CREATE fmt),
          (h, IH264D_CMD_CTL_SET_NUM_CORES (of_nat n)),
          (h, IVD_CMD_CTL_SETPARAMS IVD_DECODE_HEADER),
          (h, IVD_CMD_VIDEO_DECODE
                \<lparr>pv_stream_buffer = [0, 0], u4_num_Bytes = of_nat (length [0, 0 :: u8]),
                 s_out_buffer = out_buf_zero\<rparr>)]
         @ hdr_more
         @ [(h, IVD_CMD_CTL_SETPARAMS IVD_DECODE_FRAME),
            (h, IVD_CMD_VIDEO_DECODE
                \<lparr>pv_stream_buffer = [0, 0], u4_num_Bytes = of_nat (length [0, 0 :: u8]),
                 s_out_buffer = bufs\<rparr>)]
         @ frm_more
         @ [(h, IVD_CMD_DELETE)]
     \<and> (\<forall>x \<in> set hdr_more. \<exists>d. snd x = IVD_CMD_VIDEO_DECODE d \<and> s_out_buffer d = out_buf_zero))"
proof -
  have len: "1 \<le> length [0, 0 :: u8]"
    by simp
  from len frame_phase_restarts_at_byte_0 [OF len, of "demo_env IV_SUCCESS reply_one_byte" 0]
  show ?thesis
    by (rule conjI)
qed

section \<open>Failure of instance creation\<close>

lemma failed_creation_run:
  assumes "1 \<le> length data" and "selectConfig data = Some (fmt, n)"
    and "api_ret (ivd_api_function env w None (IVD_CMD_CREATE fmt) op_zero) \<noteq> IV_SUCCESS"
  shows "\<exists>r hdr_more bufs frm_more.
       LLVMFuzzerTestOneInput env w data = Some r
     \<and> api_calls (events r) =
         [(None, IVD_CMD_CREATE fmt),
          (None, IH264D_CMD_CTL_SET_NUM_CORES (of_nat n)),
          (None, IVD_CMD_CTL_SETPARAMS IVD_DECODE_HEADER),
          (None, IVD_CMD_VIDEO_DECODE
                \<lparr>pv_stream_buffer = data, u4_num_Bytes = of_nat (length data),
                 s_out_buffer = out_buf_zero\<rparr>)]
         @ hdr_more
         @ [(None, IVD_CMD_CTL_SETPARAMS IVD_DECODE_FRAME),
            (None, IVD_CMD_VIDEO_DECODE
                \<lparr>pv_stream_buffer = data, u4_num_Bytes = of_nat (length data),
                 s_out_buffer = bufs\<rparr>)]
         @ frm_more
         @ [(None, IVD_CMD_DELETE)]
     \<and> (\<forall>x \<in> set hdr_more. fst x = None) \<and> (\<forall>x \<in> set frm_more. fst x = None)"
proof -
  have pos: "0 < length data"
    using assms(1) by linarith
  have h: "None = mCodec (codec (createCodec env (new_Codec fmt n) w))"
    using createCodec_failed [OF assms(3)] by simp
  from session_api_calls [OF pos h, of data] entry_point_selected [OF assms(1,2), of env w]
  show ?thesis
    by blast
qed

text \<open>
  Claim C4, as stated, fails: \<open>createCodec\<close> returns nothing to its caller, and
  after a failed creation the entry point goes on to set the core count, decode
  and delete, all with the null handle.
\<close>

theorem failed_creation_counterexample:
  "api_ret (ivd_api_function (demo_env IV_FAIL reply_nothing) 0 None
              (IVD_CMD_CREATE IV_YUV_420P) op_zero) \<noteq> IV_SUCCESS
   \<and> take 3 (api_calls (events (the
        (LLVMFuzzerTestOneInput (demo_env IV_FAIL reply_nothing) 0 [0])))) =
       [(None, IVD_CMD_CREATE IV_YUV_420P),
        (None, IH264D_CMD_CTL_SET_NUM_CORES 1),
        (None, IVD_CMD_CTL_SETPARAMS IVD_DECODE_HEADER)]
   \<and> last (api_calls (events (the
        (LLVMFuzzerTestOneInput (demo_env IV_FAIL reply_nothing) 0 [0])))) =
       (None, IVD_CMD_DELETE)"
proof -
  have len: "1 \<le> length [0 :: u8]"
    by simp
  have failed: "api_ret (ivd_api_function (demo_env IV_FAIL reply_nothing) 0 None
              (IVD_CMD_CREATE IV_YUV_420P) op_zero) \<noteq> IV_SUCCESS"
    by simp
  from failed_creation_run [OF len select_one_zero_byte failed]
  obtain r hdr_more bufs frm_more where
    run: "LLVMFuzzerTestOneInput (demo_env IV_FAIL reply_nothing) 0 [0] = Some r"
    and calls: "api_calls (events r) =
         [(None, IVD_CMD_CREATE IV_YUV_420P),
          (None, IH264D_CMD_CTL_SET_NUM_CORES (of_nat 1)),
          (None, IVD_CMD_CTL_SETPARAMS IVD_DECODE_HEADER),
          (None, IVD_CMD_VIDEO_DECODE
                \<lparr>pv_stream_buffer = [0], u4_num_Bytes = of_nat (length [0 :: u8]),
                 s_out_buffer = out_buf_zero\<rparr>)]
         @ hdr_more
         @ [(None, IVD_CMD_CTL_SETPARAMS IVD_DECODE_FRAME),
            (None, IVD_CMD_VIDEO_DECODE
                \<lparr>pv_stream_buffer = [0], u4_num_Bytes = of_nat (length [0 :: u8]),
                 s_out_buffer = bufs\<rparr>)]
         @ frm_more
         @ [(None, IVD_CMD_DELETE)]"
    by blast
  show ?thesis
    unfolding run option.sel calls using failed by simp
qed

text \<open>
  Claim C4, amended. When the creation request fails, the handle stays null and
  the session still runs to its end: the core count, the header mode, the
  header decodes, the frame mode, the frame decodes and the deletion are all
  requested, every one of them with the null handle.
\<close>

theorem failed_creation_continues_with_null_handle:
  assumes "1 \<le> length data" and "selectConfig data = Some (fmt, n)"
    and "api_ret (ivd_api_function env w None (IVD_CMD_CREATE fmt) op_zero) \<noteq> IV_SUCCESS"
  shows "\<exists>r hdr_more bufs frm_more.
       LLVMFuzzerTestOneInput env w data = Some r
     \<and> api_calls (events r) =
         [(None, IVD_CMD_CREATE fmt),
          (None, IH264D_CMD_CTL_SET_NUM_CORES (of_nat n)),
          (None, IVD_CMD_CTL_SETPARAMS IVD_DECODE_HEADER),
          (None, IVD_CMD_VIDEO_DECODE
                \<lparr>pv_stream_buffer = data, u4_num_Bytes = of_nat (length data),
                 s_out_buffer = out_buf_zero\<rparr>)]
         @ hdr_more
         @ [(None, IVD_CMD_CTL_SETPARAMS IVD_DECODE_FRAME),
            (None, IVD_CMD_VIDEO_DECODE
                \<lparr>pv_stream_buffer = data, u4_num_Bytes = of_nat (length data),
                 s_out_buffer = bufs\<rparr>)]
         @ frm_more
         @ [(None, IVD_CMD_DELETE)]
     \<and> (\<forall>x \<in> set hdr_more. fst x = None) \<and> (\<forall>x \<in> set frm_more. fst x = None)"
  using assms by (rule failed_creation_run)

theorem failed_creation_continues_with_null_handle_witness:
  "1 \<le> length [0 :: u8] \<and> selectConfig [0 :: u8] = Some (IV_YUV_420P, 1)
   \<and> api_ret (ivd_api_function (demo_env IV_FAIL reply_nothing) 0 None
              (IVD_CMD_CREATE IV_YUV_420P) op_zero) \<noteq> IV_SUCCESS
   \<and> (\<exists>r hdr_more bufs frm_more.
       LLVMFuzzerTestOneInput (demo_env IV_FAIL reply_nothing) 0 [0] = Some r
     \<and> api_calls (events r) =
         [(None, IVD_CMD_CREATE IV_YUV_420P),
          (None, IH264D_CMD_CTL_SET_NUM_CORES (of_nat 1)),
          (None, IVD_CMD_CTL_SETPARAMS IVD_DECODE_HEADER),
          (None, IVD_CMD_VIDEO_DECODE
                \<lparr>pv_stream_buffer = [0], u4_num_Bytes = of_nat (length [0 :: u8]),
                 s_out_buffer = out_buf_zero\<rparr>)]
         @ hdr_more
         @ [(None, IVD_CMD_CTL_SETPARAMS IVD_DECODE_FRAME),
            (None, IVD_CMD_VIDEO_DECODE
                \<lparr>pv_stream_buffer = [0], u4_num_Bytes = of_nat (length [0 :: u8]),
                 s_out_buffer = bufs\<rparr>)]
         @ frm_more
         @ [(None, IVD_CMD_DELETE)]
     \<and> (\<forall>x \<in> set hdr_more. fst x = None) \<and> (\<forall>x \<in> set frm_more. fst x = None))"
proof -
  have len: "1 \<le> length [0 :: u8]"
    by simp
  have failed: "api_ret (ivd_api_function (demo_env IV_FAIL reply_nothing) 0 None
              (IVD_CMD_CREATE IV_YUV_420P) op_zero) \<noteq> IV_SUCCESS"
    by simp
  from len select_one_zero_byte failed
    failed_creation_continues_with_null_handle [OF len select_one_zero_byte failed]
  show ?thesis
    by blast
qed

section \<open>The plane sizes\<close>

text \<open>
  Claim C9. The plane-size computation of \<open>allocFrame\<close> is total and, for
  every layout and every width and height, yields the plane count and the
  plane sizes of the specification computed in the code's unsigned 32-bit
  arithmetic: planar 4:2:0 gives \<open>[w*h, w*h/4, w*h/4]\<close>, semi-planar 4:2:0
  \<open>[w*h, w*h/2]\<close>, packed 4:2:2 and RGB565 \<open>[w*h*2]\<close>, RGBA8888
  \<open>[w*h*4]\<close>, and any other layout takes the planar 4:2:0 branch. For every
  geometry within the bound of 10240 that the harness enforces, no product
  wraps, the sizes are those formulas over the unbounded naturals, and they are
  the sizes \<open>allocFrame\<close> requests from \<open>memalign\<close>.
\<close>

theorem frame_sizes_match_planeSizes:
  fixes w h :: u32
  shows "snd (frame_sizes fmt w h) = planeCount fmt
       \<and> length (planeSizes fmt w h) = planeCount fmt
       \<and> take (planeCount fmt) (fst (frame_sizes fmt w h)) = map unat (planeSizes fmt w h)
       \<and> frame_sizes (IV_COLOR_FORMAT_OTHER k) w h = frame_sizes IV_YUV_420P w h
       \<and> (w \<le> 10240 \<and> h \<le> 10240 \<longrightarrow>
            take (planeCount fmt) (fst (frame_sizes fmt w h)) = planeSizes fmt (unat w) (unat h))
       \<and> (mWidth c \<le> 10240 \<and> mHeight c \<le> 10240 \<longrightarrow>
            allocs (events (allocFrame env c w0)) =
              map (\<lambda>s. (16, s)) (planeSizes (mColorFormat c) (unat (mWidth c)) (unat (mHeight c))))"
proof -
  have "snd (frame_sizes fmt w h) = planeCount fmt"
    by (cases fmt) simp_all
  moreover have "length (planeSizes fmt w h) = planeCount fmt"
    by (cases fmt) simp_all
  moreover note frame_sizes_words [of fmt w h] frame_sizes_default [of k w h]
  moreover have "w \<le> 10240 \<and> h \<le> 10240 \<longrightarrow>
      take (planeCount fmt) (fst (frame_sizes fmt w h)) = planeSizes fmt (unat w) (unat h)"
    using frame_sizes_clamped(1) [of w h fmt] by blast
  moreover have "mWidth c \<le> 10240 \<and> mHeight c \<le> 10240 \<longrightarrow>
      allocs (events (allocFrame env c w0)) =
        map (\<lambda>s. (16, s)) (planeSizes (mColorFormat c) (unat (mWidth c)) (unat (mHeight c)))"
    using allocFrame_allocs_clamped [of c env w0] by blast
  ultimately show ?thesis
    by blast
qed

theorem frame_sizes_match_planeSizes_witness:
  "(1920 :: u32) \<le> 10240 \<and> (1088 :: u32) \<le> 10240
   \<and> take (planeCount IV_YUV_420P) (fst (frame_sizes IV_YUV_420P 1920 1088))
       = [2088960, 522240, 522240]
   \<and> allocs (events (allocFrame (demo_env IV_SUCCESS reply_nothing)
        ((new_Codec IV_YUV_420P 1)\<lparr>mWidth := 1920, mHeight := 1088\<rparr>) 0))
       = [(16, 2088960), (16, 522240), (16, 522240)]"
proof -
  let ?c = "(new_Codec IV_YUV_420P 1)\<lparr>mWidth := 1920, mHeight := 1088\<rparr>"
  have g: "mWidth ?c \<le> 10240 \<and> mHeight ?c \<le> 10240"
    by simp
  have f: "mColorFormat ?c = IV_YUV_420P" "mWidth ?c = 1920" "mHeight ?c = 1088"
    by simp_all
  from frame_sizes_match_planeSizes
         [of IV_YUV_420P 1920 1088 0 ?c "demo_env IV_SUCCESS reply_nothing" 0]
       default_geometry_clamped g
  have "take (planeCount IV_YUV_420P) (fst (frame_sizes IV_YUV_420P 1920 1088))
          = planeSizes IV_YUV_420P (unat (1920 :: u32)) (unat (1088 :: u32))"
    and "allocs (events (allocFrame (demo_env IV_SUCCESS reply_nothing) ?c 0)) =
          map (\<lambda>s. (16, s)) (planeSizes (mColorFormat ?c) (unat (mWidth ?c)) (unat (mHeight ?c)))"
    by blast+
  then show ?thesis
    unfolding f default_geometry_planes using default_geometry_clamped by simp
qed

section \<open>Reallocation on a change of geometry\<close>



section \<open>Resolution change\<close>



section \<open>The one-byte input\<close>

text \<open>
  Claim C3, as stated, fails: on the single byte 0x00 neither loop runs zero
  times. Each loop tests \<open>size > 0\<close> with \<open>size = 1\<close>, makes one decode
  request and advances the cursor by the one byte.
\<close>

theorem one_zero_byte_counterexample:
  "length (advances (events (decodeHeader_loop (demo_env IV_SUCCESS reply_nothing)
      (new_Codec IV_YUV_420P 1) 0 [0] 1))) \<noteq> 0
   \<and> length (advances (events (frame_loop (demo_env IV_SUCCESS reply_nothing)
      (new_Codec IV_YUV_420P 1) 0 [0] 1))) \<noteq> 0
   \<and> advances (events (the (LLVMFuzzerTestOneInput (demo_env IV_SUCCESS reply_nothing) 0 [0])))
       = [1, 1]"
  unfolding decodeHeader_loop_one_byte(1) frame_loop_one_byte nothing_one_byte_run
  by simp

text \<open>
  Claim C3, amended. For the input of the single byte 0x00: the selector gives
  the first layout of the table (planar 4:2:0) and one worker, and the session
  starts with the creation request for that layout and the core count 1; the
  header loop runs exactly one iteration, a decode request on the one byte,
  and advances by 1; when the decoder reported no width and no height for that
  request, the geometry becomes 1920 x 1088 and the three planes of planar
  4:2:0 are allocated with 2088960, 522240 and 522240 bytes; the frame loop
  runs exactly one iteration on the same byte; the session ends by releasing
  every non-null buffer of the descriptor the frame loop left and then
  requesting the deletion of the instance, and over the whole session the
  addresses released are exactly the non-null addresses \<open>memalign\<close>
  returned, each once and in the same order.
\<close>

theorem one_zero_byte_session:
  "selectConfig [0 :: u8] = Some (IV_YUV_420P, 1)
   \<and> LLVMFuzzerTestOneInput env w [0] = Some (session env w [0] 1 IV_YUV_420P 1)
   \<and> (\<exists>h more. api_calls (events (session env w [0] 1 IV_YUV_420P 1)) =
          (None, IVD_CMD_CREATE IV_YUV_420P) # (h, IH264D_CMD_CTL_SET_NUM_CORES 1) # more)
   \<and> advances (events (decodeHeader_loop env c w' [0] 1)) = [1]
   \<and> api_calls (events (decodeHeader_loop env c w' [0] 1)) =
        [(mCodec c, IVD_CMD_VIDEO_DECODE
            \<lparr>pv_stream_buffer = [0], u4_num_Bytes = 1, s_out_buffer = out_buf_zero\<rparr>)]
   \<and> advances (events (frame_loop env c w' [0] 1)) = [1]
   \<and> advances (events (session env w [0] 1 IV_YUV_420P 1)) = [1, 1]
   \<and> (let r1 = createCodec env (new_Codec IV_YUV_420P 1) w;
            r2 = setCores env (codec r1) (world r1);
            p = setParams env (codec r2) (world r2) IVD_DECODE_HEADER;
            rep = api_out (ivd_api_function env (world p) (mCodec (codec r2))
                    (IVD_CMD_VIDEO_DECODE
                       \<lparr>pv_stream_buffer = [0], u4_num_Bytes = 1, s_out_buffer = out_buf_zero\<rparr>)
                    op_zero)
        in u4_pic_wd rep = 0 \<and> u4_pic_ht rep = 0 \<longrightarrow>
             mWidth (codec (session_setup env w [0] 1 IV_YUV_420P 1)) = 1920
           \<and> mHeight (codec (session_setup env w [0] 1 IV_YUV_420P 1)) = 1088
           \<and> allocs (events (session_setup env w [0] 1 IV_YUV_420P 1)) =
                [(16, 2088960), (16, 522240), (16, 522240)])
   \<and> (let su = session_setup env w [0] 1 IV_YUV_420P 1;
            fl = frame_loop env (codec su) (world su) [0] 1
        in events (session env w [0] 1 IV_YUV_420P 1) =
             events su @ events fl
             @ map Free (live_bufs (mOutBufHandle (codec fl)))
             @ [ApiCall (mCodec (codec fl)) IVD_CMD_DELETE])
   \<and> frees (events (session env w [0] 1 IV_YUV_420P 1)) =
        filter (\<lambda>p. p \<noteq> 0) (alloc_ptrs (events (session env w [0] 1 IV_YUV_420P 1)))"
proof -
  have calls: "\<exists>h more. api_calls (events (session env w [0] 1 IV_YUV_420P 1)) =
          (None, IVD_CMD_CREATE IV_YUV_420P) # (h, IH264D_CMD_CTL_SET_NUM_CORES 1) # more"
  proof -
    have pos: "0 < (1 :: nat)"
      by simp
    from session_api_calls [OF pos refl, where env=env and fmt=IV_YUV_420P and n=1 and w=w
            and data="[0]", unfolded of_nat_1]
    show ?thesis
      by auto
  qed
  have dflt: "(let r1 = createCodec env (new_Codec IV_YUV_420P 1) w;
            r2 = setCores env (codec r1) (world r1);
            p = setParams env (codec r2) (world r2) IVD_DECODE_HEADER;
            rep = api_out (ivd_api_function env (world p) (mCodec (codec r2))
                    (IVD_CMD_VIDEO_DECODE
                       \<lparr>pv_stream_buffer = [0], u4_num_Bytes = 1, s_out_buffer = out_buf_zero\<rparr>)
                    op_zero)
        in u4_pic_wd rep = 0 \<and> u4_pic_ht rep = 0 \<longrightarrow>
             mWidth (codec (session_setup env w [0] 1 IV_YUV_420P 1)) = 1920
           \<and> mHeight (codec (session_setup env w [0] 1 IV_YUV_420P 1)) = 1088
           \<and> allocs (events (session_setup env w [0] 1 IV_YUV_420P 1)) =
                [(16, 2088960), (16, 522240), (16, 522240)])"
    unfolding Let_def
    using one_byte_session_setup_default [of env w "[0]"] by blast
  have rel: "(let su = session_setup env w [0] 1 IV_YUV_420P 1;
            fl = frame_loop env (codec su) (world su) [0] 1
        in events (session env w [0] 1 IV_YUV_420P 1) =
             events su @ events fl
             @ map Free (live_bufs (mOutBufHandle (codec fl)))
             @ [ApiCall (mCodec (codec fl)) IVD_CMD_DELETE])"
    unfolding Let_def by (rule session_release)
  from select_one_zero_byte one_zero_byte_run [of env w] calls
    decodeHeader_loop_one_byte(1,2) [of env c w' "[0]"] frame_loop_one_byte [of env c w' "[0]"]
    one_byte_session_advances [of env w "[0]" IV_YUV_420P 1] dflt rel
    session_balance [of env w "[0]" 1 IV_YUV_420P 1]
  show ?thesis
    by (intro conjI)
qed

theorem one_zero_byte_session_witness:
  "u4_pic_wd (api_out (ivd_api_function (demo_env IV_SUCCESS reply_nothing) 0 (Some 1)
      (IVD_CMD_VIDEO_DECODE
         \<lparr>pv_stream_buffer = [0], u4_num_Bytes = 1, s_out_buffer = out_buf_zero\<rparr>) op_zero)) = 0
   \<and> u4_pic_ht (api_out (ivd_api_function (demo_env IV_SUCCESS reply_nothing) 0 (Some 1)
      (IVD_CMD_VIDEO_DECODE
         \<lparr>pv_stream_buffer = [0], u4_num_Bytes = 1, s_out_buffer = out_buf_zero\<rparr>) op_zero)) = 0
   \<and> mWidth (codec (session_setup (demo_env IV_SUCCESS reply_nothing) 0 [0] 1 IV_YUV_420P 1))
       = 1920
   \<and> mHeight (codec (session_setup (demo_env IV_SUCCESS reply_nothing) 0 [0] 1 IV_YUV_420P 1))
       = 1088
   \<and> allocs (events (session_setup (demo_env IV_SUCCESS reply_nothing) 0 [0] 1 IV_YUV_420P 1))
       = [(16, 2088960), (16, 522240), (16, 522240)]"
proof -
  let ?env = "demo_env IV_SUCCESS reply_nothing"
  have rep: "api_out (ivd_api_function ?env w h (IVD_CMD_VIDEO_DECODE d) op_zero) = op_zero"
    for w h d
    by (simp add: reply_nothing_def)
  have z: "u4_pic_wd op_zero = 0" "u4_pic_ht op_zero = 0"
    by (simp_all add: op_zero_def)
  from one_zero_byte_session [of ?env 0 "new_Codec IV_YUV_420P 1" 0, unfolded Let_def rep z]
  have "mWidth (codec (session_setup ?env 0 [0] 1 IV_YUV_420P 1)) = 1920
      \<and> mHeight (codec (session_setup ?env 0 [0] 1 IV_YUV_420P 1)) = 1088
      \<and> allocs (events (session_setup ?env 0 [0] 1 IV_YUV_420P 1))
          = [(16, 2088960), (16, 522240), (16, 522240)]"
    by blast
  then show ?thesis
    unfolding rep z by simp
qed

end
